theory Spec2Isabelle
  imports Complex_Main "HOL-Library.Sublist"
begin

section \<open>JavaScript values used by the DOM cache\<close>

text \<open>
  The module \<^verbatim>\<open>webextensions/sidebar/dom-cache.js\<close> works on JavaScript strings,
  numbers and arrays.  A string is modelled as a \<^typ>\<open>string\<close>, one \<^typ>\<open>char\<close> per
  code unit (so the embedding covers the strings whose code units are below 256);
  \<^verbatim>\<open>length\<close> counts code units, as \<^verbatim>\<open>String.prototype.length\<close> does.
  A number that holds an integer is an \<^typ>\<open>int\<close>; \<^verbatim>\<open>NaN\<close> is a value of its own.
\<close>

datatype js_value = JSUndefined | JSString string | JSBool bool

text \<open>\<^verbatim>\<open>ToBoolean\<close>: \<^verbatim>\<open>undefined\<close> and the empty string are falsy.\<close>

fun truthy :: "js_value \<Rightarrow> bool" where
  "truthy JSUndefined = False"
| "truthy (JSString s) = (s \<noteq> [])"
| "truthy (JSBool b) = b"

datatype js_number = NaN | Num int

text \<open>\<^verbatim>\<open>ToBoolean\<close> of a number: \<^verbatim>\<open>NaN\<close> and zero are falsy.\<close>

fun truthy_number :: "js_number \<Rightarrow> bool" where
  "truthy_number NaN = False"
| "truthy_number (Num n) = (n \<noteq> 0)"

text \<open>Strict equality \<^verbatim>\<open>===\<close> on numbers: \<^verbatim>\<open>NaN\<close> equals nothing.\<close>

fun strict_eq :: "js_number \<Rightarrow> js_number \<Rightarrow> bool" where
  "strict_eq (Num a) (Num b) = (a = b)"
| "strict_eq _ _ = False"

text \<open>
  \<^verbatim>\<open>String.prototype.indexOf(searchString)\<close>: the least index at which
  \<^verbatim>\<open>searchString\<close> occurs, or \<^verbatim>\<open>-1\<close>.  The empty string occurs at index 0.
\<close>

fun indexOf :: "'a list \<Rightarrow> 'a list \<Rightarrow> int" where
  "indexOf [] searchString = (if searchString = [] then 0 else - 1)"
| "indexOf (c # cs) searchString =
     (if prefix searchString (c # cs) then 0
      else (let r = indexOf cs searchString in if r < 0 then - 1 else r + 1))"

text \<open>
  \<^verbatim>\<open>Array.prototype.indexOf(searchElement)\<close> on an array of integer ids: the least
  index holding the element, or \<^verbatim>\<open>-1\<close>.
\<close>

fun array_indexOf :: "int list \<Rightarrow> int \<Rightarrow> int" where
  "array_indexOf [] x = - 1"
| "array_indexOf (y # ys) x =
     (if y = x then 0
      else (let r = array_indexOf ys x in if r < 0 then - 1 else r + 1))"

text \<open>The same on an array of numbers that may hold \<^verbatim>\<open>NaN\<close>, compared by \<^verbatim>\<open>===\<close>.\<close>

fun number_indexOf :: "js_number list \<Rightarrow> js_number \<Rightarrow> int" where
  "number_indexOf [] x = - 1"
| "number_indexOf (y # ys) x =
     (if strict_eq y x then 0
      else (let r = number_indexOf ys x in if r < 0 then - 1 else r + 1))"

text \<open>\<^verbatim>\<open>Array.prototype.join(separator)\<close>.\<close>

fun join :: "'a list \<Rightarrow> 'a list list \<Rightarrow> 'a list" where
  "join sep [] = []"
| "join sep [x] = x"
| "join sep (x # y # ys) = x @ sep @ join sep (y # ys)"

text \<open>
  \<^verbatim>\<open>String.prototype.split(separator)\<close> for a separator of one code unit; the
  empty string splits into one empty piece.
\<close>

fun split :: "'a \<Rightarrow> 'a list \<Rightarrow> 'a list list" where
  "split sep [] = [[]]"
| "split sep (c # cs) =
     (if c = sep then [] # split sep cs
      else (case split sep cs of [] \<Rightarrow> [[c]] | p # ps \<Rightarrow> (c # p) # ps))"

definition newline :: string where
  "newline = [CHR 0x0A]"

text \<open>Template-literal conversion of an integer and of a boolean to a string.\<close>

definition digit :: "nat \<Rightarrow> char" where
  "digit d = ''0123456789'' ! d"

fun digits :: "nat \<Rightarrow> string" where
  "digits n = (if n < 10 then [digit n] else digits (n div 10) @ [digit (n mod 10)])"

declare digits.simps [simp del]

definition show_int :: "int \<Rightarrow> string" where
  "show_int n = (if n < 0 then CHR ''-'' # digits (nat (- n)) else digits (nat n))"

definition show_bool :: "bool \<Rightarrow> string" where
  "show_bool b = (if b then ''true'' else ''false'')"

section \<open>Signature codec\<close>

subsection \<open>Signature of a list of tab records\<close>

text \<open>
  A tab record as \<^verbatim>\<open>getWindowSignature\<close> reads it.  \<^verbatim>\<open>openerTabId\<close> is optional
  (\<^verbatim>\<open>undefined\<close> is \<^const>\<open>None\<close>).
\<close>

record tab =
  tab_id :: int
  openerTabId :: "int option"
  cookieStoreId :: string
  incognito :: bool
  pinned :: bool

text \<open>
  \<^verbatim>\<open>tab.openerTabId ? tabIds.indexOf(tab.openerTabId) : -1\<close>: an absent opener and the
  opener id 0 are falsy.
\<close>

definition parentIndex :: "int list \<Rightarrow> tab \<Rightarrow> int" where
  "parentIndex tabIds t =
     (case openerTabId t of
        None \<Rightarrow> - 1
      | Some opener \<Rightarrow> if opener \<noteq> 0 then array_indexOf tabIds opener else - 1)"

text \<open>The template literal of one line.\<close>

definition signatureLine :: "int list \<Rightarrow> tab \<Rightarrow> string" where
  "signatureLine tabIds t =
     show_int (parentIndex tabIds t) @ '','' @ cookieStoreId t @ '','' @
     show_bool (incognito t) @ '','' @ show_bool (pinned t)"

definition getWindowSignature :: "tab list \<Rightarrow> string" where
  "getWindowSignature tabs =
     (let tabIds = map tab_id tabs
      in join newline (map (signatureLine tabIds) tabs))"

subsection \<open>Comparing a cached signature with the actual one\<close>

record signatures =
  actual :: "string option"
  cached :: "string option"

text \<open>
  \<^verbatim>\<open>signatures.actual && signatures.cached && (... == ...)\<close>: the value of the first
  falsy operand, or the boolean of the comparison.
\<close>

definition matcheSignatures :: "signatures \<Rightarrow> js_value" where
  "matcheSignatures sigs =
     (case actual sigs of
        None \<Rightarrow> JSUndefined
      | Some a \<Rightarrow>
          if a = [] then JSString a
          else (case cached sigs of
                  None \<Rightarrow> JSUndefined
                | Some c \<Rightarrow>
                    if c = [] then JSString c
                    else JSBool (indexOf a c + int (length c) = int (length a))))"

subsection \<open>Regular expressions of the markup parser\<close>

text \<open>
  The character classes \<^verbatim>\<open>\w\<close> and \<^verbatim>\<open>\s\<close> on code units below 256.
\<close>

definition isWordChar :: "char \<Rightarrow> bool" where
  "isWordChar c =
     (let n = (of_char c :: nat)
      in (48 \<le> n \<and> n \<le> 57) \<or> (65 \<le> n \<and> n \<le> 90) \<or> n = 95 \<or> (97 \<le> n \<and> n \<le> 122))"

definition isSpaceChar :: "char \<Rightarrow> bool" where
  "isSpaceChar c =
     (let n = (of_char c :: nat)
      in n = 9 \<or> n = 10 \<or> n = 11 \<or> n = 12 \<or> n = 13 \<or> n = 32 \<or> n = 160)"

definition dquote :: char where
  "dquote = CHR 0x22"

definition strip_prefix :: "string \<Rightarrow> string \<Rightarrow> string option" where
  "strip_prefix p s = (if prefix p s then Some (drop (length p) s) else None)"

text \<open>
  A regular expression is modelled by its match attempt at one position: the flag says
  whether the code unit before the position is a word character (for \<^verbatim>\<open>\b\<close>), the
  string is the input from the position on, and the result is the match array (the
  matched text, then the capture groups) or \<^const>\<open>None\<close>.
\<close>

type_synonym regexp = "bool \<Rightarrow> string \<Rightarrow> string list option"

text \<open>\<^verbatim>\<open>\b\<close>: exactly one of the two neighbours is a word character.\<close>

definition wordBoundary :: "bool \<Rightarrow> string \<Rightarrow> bool" where
  "wordBoundary prevWord s = (prevWord \<noteq> (case s of [] \<Rightarrow> False | c # _ \<Rightarrow> isWordChar c))"

text \<open>
  \<^verbatim>\<open>str.match(regexp)\<close> for a regular expression without the \<^verbatim>\<open>g\<close> flag: the
  attempt at the leftmost position that matches.
\<close>

fun exec_from :: "regexp \<Rightarrow> bool \<Rightarrow> string \<Rightarrow> string list option" where
  "exec_from re prevWord [] = re prevWord []"
| "exec_from re prevWord (c # cs) =
     (case re prevWord (c # cs) of
        Some m \<Rightarrow> Some m
      | None \<Rightarrow> exec_from re (isWordChar c) cs)"

definition match :: "string \<Rightarrow> regexp \<Rightarrow> string list option" where
  "match s re = exec_from re False s"

text \<open>\<^verbatim>\<open>regexp.test(str)\<close>.\<close>

definition test :: "regexp \<Rightarrow> string \<Rightarrow> bool" where
  "test re s = (match s re \<noteq> None)"

text \<open>Element \<open>i\<close> of a match array; an index past its end reads \<^verbatim>\<open>undefined\<close>.\<close>

fun element :: "string list \<Rightarrow> nat \<Rightarrow> string option" where
  "element [] i = None"
| "element (x # xs) 0 = Some x"
| "element (x # xs) (Suc i) = element xs i"

text \<open>
  \<^verbatim>\<open>new RegExp(`${name}="([^"]+)"`)\<close> for an attribute name that holds no character
  special in a regular expression: the name, \<^verbatim>\<open>="\<close>, the longest non-empty run of
  code units other than the quote (capture group 1), and a quote.
\<close>

definition attributeMatcher :: "string \<Rightarrow> regexp" where
  "attributeMatcher name prevWord s =
     (case strip_prefix (name @ [CHR ''='', dquote]) s of
        None \<Rightarrow> None
      | Some r \<Rightarrow>
          (let v = takeWhile (\<lambda>c. c \<noteq> dquote) r
           in if v \<noteq> [] \<and> dropWhile (\<lambda>c. c \<noteq> dquote) r \<noteq> []
              then Some [name @ [CHR ''='', dquote] @ v @ [dquote], v]
              else None))"

definition idMatcher :: "string \<Rightarrow> regexp" where
  "idMatcher kAPI_TAB_ID = attributeMatcher kAPI_TAB_ID"

definition parentMatcher :: "string \<Rightarrow> regexp" where
  "parentMatcher kPARENT = attributeMatcher kPARENT"

definition classesMatcher :: regexp where
  "classesMatcher = attributeMatcher ''class''"

text \<open>
  \<^verbatim>\<open>/\bword\b/\<close> for a literal word: a word boundary, the word, a word boundary.
  The match array holds the matched text only.
\<close>

definition wordMatcher :: "string \<Rightarrow> regexp" where
  "wordMatcher w prevWord s =
     (if wordBoundary prevWord s
      then (case strip_prefix w s of
              None \<Rightarrow> None
            | Some r \<Rightarrow>
                if wordBoundary (if w = [] then prevWord else isWordChar (last w)) r
                then Some [w] else None)
      else None)"

definition incognitoMatcher :: regexp where
  "incognitoMatcher = wordMatcher ''incognito''"

definition pinnedMatcher :: regexp where
  "pinnedMatcher = wordMatcher ''pinned''"

text \<open>
  The greedy \<^verbatim>\<open>[^\s]+\<close> followed by \<^verbatim>\<open>\b\<close>: the longest non-empty prefix of the run
  of non-space code units that ends at a word boundary.
\<close>

fun longest_to_boundary :: "nat \<Rightarrow> string \<Rightarrow> string option" where
  "longest_to_boundary 0 r = None"
| "longest_to_boundary (Suc k) r =
     (if wordBoundary (isWordChar (r ! k)) (drop (Suc k) r) then Some (take (Suc k) r)
      else longest_to_boundary k r)"

text \<open>
  \<^verbatim>\<open>/\bcontextual-identity-[^\s]+\b/\<close>.  The expression has no capture group: the
  match array holds the matched text only.
\<close>

definition cookieStoreIdMatcher :: regexp where
  "cookieStoreIdMatcher prevWord s =
     (if wordBoundary prevWord s
      then (case strip_prefix ''contextual-identity-'' s of
              None \<Rightarrow> None
            | Some r \<Rightarrow>
                (case longest_to_boundary (length (takeWhile (\<lambda>c. \<not> isSpaceChar c) r)) r of
                   None \<Rightarrow> None
                 | Some v \<Rightarrow> Some [''contextual-identity-'' @ v]))
      else None)"

text \<open>The first occurrence of a pattern: the text before it and the text after it.\<close>

fun find_first :: "string \<Rightarrow> string \<Rightarrow> (string \<times> string) option" where
  "find_first pat [] = (if pat = [] then Some ([], []) else None)"
| "find_first pat (c # cs) =
     (if prefix pat (c # cs) then Some ([], drop (length pat) (c # cs))
      else (case find_first pat cs of
              None \<Rightarrow> None
            | Some (before, rest) \<Rightarrow> Some (c # before, rest)))"

text \<open>
  One match attempt of \<^verbatim>\<open>/(<li[^>]*>[\w\W]+?<\/li>)/\<close>: \<^verbatim>\<open><li\<close>, the code units up
  to the first \<^verbatim>\<open>>\<close>, that \<^verbatim>\<open>>\<close>, one code unit of any kind, and the
  shortest continuation that ends with \<^verbatim>\<open></li>\<close>.  The result is the matched
  text and the input after it.
\<close>

definition li_at :: "string \<Rightarrow> (string \<times> string) option" where
  "li_at s =
     (case strip_prefix ''<li'' s of
        None \<Rightarrow> None
      | Some r \<Rightarrow>
          (case dropWhile (\<lambda>c. c \<noteq> CHR ''>'') r of
             [] \<Rightarrow> None
           | gt # r2 \<Rightarrow>
               (case r2 of
                  [] \<Rightarrow> None
                | c # r3 \<Rightarrow>
                    (case find_first ''</li>'' r3 of
                       None \<Rightarrow> None
                     | Some (body, rest) \<Rightarrow>
                         Some (''<li'' @ takeWhile (\<lambda>c. c \<noteq> CHR ''>'') r @ [gt] @ [c] @ body @ ''</li>'',
                               rest)))))"

lemma find_first_length: "find_first pat s = Some (before, rest) \<Longrightarrow> length rest \<le> length s"
  by (induction s arbitrary: before) (auto split: if_splits option.splits)

lemma li_at_length: "li_at s = Some (m, rest) \<Longrightarrow> length rest < length s"
proof -
  assume h: "li_at s = Some (m, rest)"
  then obtain r gt c r3 body where
    r: "strip_prefix ''<li'' s = Some r" and
    d: "dropWhile (\<lambda>c. c \<noteq> CHR ''>'') r = gt # c # r3" and
    f: "find_first ''</li>'' r3 = Some (body, rest)"
    by (auto simp: li_at_def split: option.splits list.splits)
  have "length r \<le> length s" using r by (auto simp: strip_prefix_def split: if_splits)
  moreover have "length (dropWhile (\<lambda>c. c \<noteq> CHR ''>'') r) \<le> length r"
    by (rule length_dropWhile_le)
  moreover have "length rest \<le> length r3" using f by (rule find_first_length)
  ultimately show ?thesis using d by simp
qed

text \<open>
  \<^verbatim>\<open>cachedTabs.match(/(<li[^>]*>[\w\W]+?<\/li>)/g) || []\<close>: the matches from left to
  right, each search starting where the match before it ended.
\<close>

function matchAll_li :: "string \<Rightarrow> string list" where
  "matchAll_li [] = []"
| "matchAll_li (c # cs) =
     (case li_at (c # cs) of
        None \<Rightarrow> matchAll_li cs
      | Some (m, rest) \<Rightarrow> m # matchAll_li rest)"
  by pat_completeness auto
termination
  by (relation "measure length") (auto dest: li_at_length)

subsection \<open>\<^verbatim>\<open>parseInt\<close>\<close>

text \<open>
  \<^verbatim>\<open>parseInt(string)\<close> with no radix: leading white space is skipped, a sign is read,
  a prefix \<^verbatim>\<open>0x\<close> or \<^verbatim>\<open>0X\<close> selects radix 16, and the longest run of digits is
  the value; no digit gives \<^verbatim>\<open>NaN\<close>.  The value is the exact integer (the
  JavaScript number is the same where it is below \<open>2^53\<close> in magnitude, as tab ids are).
\<close>

definition digitValue :: "char \<Rightarrow> nat option" where
  "digitValue c =
     (let n = (of_char c :: nat)
      in if 48 \<le> n \<and> n \<le> 57 then Some (n - 48)
         else if 97 \<le> n \<and> n \<le> 122 then Some (n - 87)
         else if 65 \<le> n \<and> n \<le> 90 then Some (n - 55)
         else None)"

definition isDigitOf :: "nat \<Rightarrow> char \<Rightarrow> bool" where
  "isDigitOf radix c = (case digitValue c of None \<Rightarrow> False | Some v \<Rightarrow> v < radix)"

definition digitsValue :: "nat \<Rightarrow> string \<Rightarrow> nat" where
  "digitsValue radix ds =
     foldl (\<lambda>acc c. acc * radix + (case digitValue c of None \<Rightarrow> 0 | Some v \<Rightarrow> v)) 0 ds"

definition parseDigits :: "int \<Rightarrow> string \<Rightarrow> js_number" where
  "parseDigits sign s =
     (let radix = (if prefix ''0x'' s \<or> prefix ''0X'' s then 16 else 10);
          z = takeWhile (isDigitOf radix) (if radix = 16 then drop 2 s else s)
      in if z = [] then NaN else Num (sign * int (digitsValue radix z)))"

definition parseInt :: "string \<Rightarrow> js_number" where
  "parseInt str =
     (case dropWhile isSpaceChar str of
        [] \<Rightarrow> NaN
      | c # cs \<Rightarrow>
          if c = CHR ''-'' then parseDigits (- 1) cs
          else if c = CHR ''+'' then parseDigits 1 cs
          else parseDigits 1 (c # cs))"

subsection \<open>Signature of a cached markup blob\<close>

text \<open>
  What the module can raise: a \<^verbatim>\<open>TypeError\<close> (a property read of \<^verbatim>\<open>null\<close> or
  \<^verbatim>\<open>undefined\<close>, or a DOM argument that is not a node), the DOM exception
  \<^verbatim>\<open>InvalidNodeTypeError\<close> (a range boundary at a node without a parent), and the
  \<^verbatim>\<open>Error\<close> that the fixup pass throws on mismatched lengths.
\<close>

datatype error = TypeError | InvalidNodeTypeError | Error

text \<open>The object the callback of \<^verbatim>\<open>map\<close> returns for one \<^verbatim>\<open><li>\<close> fragment.\<close>

record cachedTab =
  cached_id :: js_number
  cached_cookieStoreId :: string
  parentId :: "js_number option"
  cached_incognito :: bool
  cached_pinned :: bool

text \<open>
  The callback.  \<^verbatim>\<open>matched.match(idMatcher)[1]\<close> and
  \<^verbatim>\<open>matched.match(classesMatcher)[1]\<close> index the result of \<^verbatim>\<open>match\<close> unguarded, so a
  fragment without such an attribute raises a \<^verbatim>\<open>TypeError\<close>.  The constants
  \<^verbatim>\<open>Constants.kAPI_TAB_ID\<close> and \<^verbatim>\<open>Constants.kPARENT\<close> are parameters.
\<close>

definition cachedTabOf :: "string \<Rightarrow> string \<Rightarrow> string \<Rightarrow> error + cachedTab" where
  "cachedTabOf kAPI_TAB_ID kPARENT matched =
     (case match matched (idMatcher kAPI_TAB_ID) of
        None \<Rightarrow> Inl TypeError
      | Some idMatched \<Rightarrow>
          (let tid = (case element idMatched 1 of None \<Rightarrow> NaN | Some v \<Rightarrow> parseInt v)
           in case match matched classesMatcher of
                None \<Rightarrow> Inl TypeError
              | Some classesMatched \<Rightarrow>
                  (case element classesMatched 1 of
                     None \<Rightarrow> Inl TypeError
                   | Some classes \<Rightarrow>
                       (let cookieStoreIdMatched = match classes cookieStoreIdMatcher;
                            parentMatched = match matched (parentMatcher kPARENT)
                        in Inr \<lparr>cached_id = tid,
                                cached_cookieStoreId =
                                  (case cookieStoreIdMatched of
                                     None \<Rightarrow> ''contextual-identity-firefox-default''
                                   | Some a \<Rightarrow>
                                       (case element a 1 of
                                          None \<Rightarrow> ''contextual-identity-firefox-default''
                                        | Some g \<Rightarrow>
                                            if g \<noteq> [] then g
                                            else ''contextual-identity-firefox-default'')),
                                parentId =
                                  (case parentMatched of
                                     None \<Rightarrow> None
                                   | Some a \<Rightarrow>
                                       Some (case element a 1 of None \<Rightarrow> NaN | Some v \<Rightarrow> parseInt v)),
                                cached_incognito = test incognitoMatcher classes,
                                cached_pinned = test pinnedMatcher classes\<rparr>))))"

text \<open>\<^verbatim>\<open>Array.prototype.map\<close> with a callback that may raise: the first error ends it.\<close>

fun map_raising :: "('a \<Rightarrow> error + 'b) \<Rightarrow> 'a list \<Rightarrow> error + 'b list" where
  "map_raising f [] = Inr []"
| "map_raising f (x # xs) =
     (case f x of
        Inl e \<Rightarrow> Inl e
      | Inr y \<Rightarrow> (case map_raising f xs of Inl e \<Rightarrow> Inl e | Inr ys \<Rightarrow> Inr (y # ys)))"

text \<open>\<^verbatim>\<open>tab.parentId ? tabIds.indexOf(tab.parentId) : -1\<close>.\<close>

definition cachedParentIndex :: "js_number list \<Rightarrow> cachedTab \<Rightarrow> int" where
  "cachedParentIndex tabIds t =
     (case parentId t of
        None \<Rightarrow> - 1
      | Some p \<Rightarrow> if truthy_number p then number_indexOf tabIds p else - 1)"

definition cachedLine :: "js_number list \<Rightarrow> cachedTab \<Rightarrow> string" where
  "cachedLine tabIds t =
     show_int (cachedParentIndex tabIds t) @ '','' @ cached_cookieStoreId t @ '','' @
     show_bool (cached_incognito t) @ '','' @ show_bool (cached_pinned t)"

definition signatureFromTabsCache :: "string \<Rightarrow> string \<Rightarrow> string \<Rightarrow> error + string" where
  "signatureFromTabsCache kAPI_TAB_ID kPARENT cachedTabs =
     (case map_raising (cachedTabOf kAPI_TAB_ID kPARENT) (matchAll_li cachedTabs) of
        Inl e \<Rightarrow> Inl e
      | Inr tabs \<Rightarrow>
          (let tabIds = map cached_id tabs
           in Inr (join newline (map (cachedLine tabIds) tabs))))"

section \<open>Restoring the tab elements of a window from the cache\<close>

subsection \<open>The document and the stores\<close>

text \<open>
  The document is a store of nodes: each node has a parent (or none), a list of child
  nodes, and a kind (an element, or a text node).  New nodes are allocated at
  \<open>nextNode\<close>.  The state also counts the calls of \<^verbatim>\<open>Date.now()\<close> and logs the
  values passed to \<^verbatim>\<open>UserOperationBlocker.setProgress\<close>.
\<close>

type_synonym node = nat

record sidebar =
  parentNode :: "node \<Rightarrow> node option"
  childNodes :: "node \<Rightarrow> node list"
  isElement :: "node \<Rightarrow> bool"
  nextNode :: node
  nowCalls :: nat
  progressLog :: "int list"

text \<open>A parsed fragment of markup: elements with their children, and text nodes.\<close>

datatype html = HElement "html list" | HText

text \<open>
  What the function reads from other modules.  \<open>windowElement w\<close> is
  \<^verbatim>\<open>TabsStore.windows.get(w)\<close> and its \<^verbatim>\<open>element\<close> (\<^const>\<open>None\<close>: no such window;
  \<open>Some None\<close>: a window without an element).  \<open>tabElement i\<close> is \<^verbatim>\<open>Tab.get(i)\<close>
  and its \<^verbatim>\<open>$TST.element\<close>, in the same way.  \<open>wholeContainer\<close> is
  \<^verbatim>\<open>SidebarTabs.wholeContainer\<close>.  \<open>createContextualFragment\<close> is the HTML parser of
  the browser.  \<open>clock n\<close> is the value of call \<open>n\<close> of \<^verbatim>\<open>Date.now()\<close>, and
  \<open>kPROGRESS_INTERVAL\<close> is \<^verbatim>\<open>Constants.kPROGRESS_INTERVAL\<close>.
\<close>

record environment =
  windowElement :: "int \<Rightarrow> node option option"
  tabElement :: "int \<Rightarrow> node option option"
  wholeContainer :: node
  createContextualFragment :: "string \<Rightarrow> html list"
  clock :: "nat \<Rightarrow> int"
  kPROGRESS_INTERVAL :: int

text \<open>
  The argument of \<^verbatim>\<open>restoreTabsFromCacheInternal\<close>.  The insertion point is a
  collapsed range: a node and an offset among its children.
\<close>

record params =
  windowId :: int
  tabs :: "tab list"
  cache :: string
  offset :: "int option"
  insertionPoint :: "(node \<times> nat) option"
  shouldUpdate :: bool

text \<open>
  How a call ends: it returns, it raises (the promise of the asynchronous function is
  rejected), or it reaches a range that spans nodes outside the container, which this
  embedding does not follow.
\<close>

datatype 'a outcome = Returned 'a | Raised error | Unmodelled

subsection \<open>DOM operations\<close>

text \<open>\<^verbatim>\<open>parent.removeChild(child)\<close> for a child of \<open>parent\<close>.\<close>

definition removeChild :: "node \<Rightarrow> node \<Rightarrow> sidebar \<Rightarrow> sidebar" where
  "removeChild parent child d =
     d\<lparr>childNodes := (childNodes d)(parent := removeAll child (childNodes d parent)),
       parentNode := (parentNode d)(child := None)\<rparr>"

text \<open>\<^verbatim>\<open>parent.appendChild(child)\<close> for a child without a parent.\<close>

definition appendChild :: "node \<Rightarrow> node \<Rightarrow> sidebar \<Rightarrow> sidebar" where
  "appendChild parent child d =
     d\<lparr>childNodes := (childNodes d)(parent := childNodes d parent @ [child]),
       parentNode := (parentNode d)(child := Some parent)\<rparr>"

text \<open>The index of a child among its siblings.\<close>

definition child_index :: "node list \<Rightarrow> node \<Rightarrow> nat" where
  "child_index cs c = length (takeWhile (\<lambda>x. x \<noteq> c) cs)"

text \<open>
  \<^verbatim>\<open>Range.deleteContents()\<close> for a range from offset \<open>i\<close> to offset \<open>j\<close> of one
  node: the children in between leave the document.
\<close>

definition deleteContents :: "node \<Rightarrow> nat \<Rightarrow> nat \<Rightarrow> sidebar \<Rightarrow> sidebar" where
  "deleteContents container i j d =
     (let cs = childNodes d container;
          removed = take (j - i) (drop i cs)
      in d\<lparr>childNodes := (childNodes d)(container := take i cs @ drop j cs),
           parentNode := (\<lambda>n. if n \<in> set removed then None else parentNode d n)\<rparr>)"

text \<open>
  The nodes of a parsed fragment are allocated in document order, each with its parent.
\<close>

fun build :: "node option \<Rightarrow> html \<Rightarrow> sidebar \<Rightarrow> node \<times> sidebar"
  and build_list :: "node option \<Rightarrow> html list \<Rightarrow> sidebar \<Rightarrow> node list \<times> sidebar" where
  "build parent HText d =
     (let n = nextNode d
      in (n, d\<lparr>nextNode := Suc n, isElement := (isElement d)(n := False),
               parentNode := (parentNode d)(n := parent),
               childNodes := (childNodes d)(n := [])\<rparr>))"
| "build parent (HElement hs) d =
     (let n = nextNode d;
          d1 = d\<lparr>nextNode := Suc n, isElement := (isElement d)(n := True),
                 parentNode := (parentNode d)(n := parent)\<rparr>
      in case build_list (Some n) hs d1 of
           (ks, d2) \<Rightarrow> (n, d2\<lparr>childNodes := (childNodes d2)(n := ks)\<rparr>))"
| "build_list parent [] d = ([], d)"
| "build_list parent (h # hs) d =
     (case build parent h d of
        (n, d1) \<Rightarrow> (case build_list parent hs d1 of (ns, d2) \<Rightarrow> (n # ns, d2)))"

text \<open>
  \<^verbatim>\<open>range.createContextualFragment(source)\<close> followed by
  \<^verbatim>\<open>range.insertNode(fragment)\<close> for a range collapsed at offset \<open>k\<close> of \<open>parent\<close>:
  the top-level nodes of the fragment become children of \<open>parent\<close> at that offset.
  The result holds the top-level nodes.
\<close>

definition insertFragment :: "node \<Rightarrow> nat \<Rightarrow> html list \<Rightarrow> sidebar \<Rightarrow> node list \<times> sidebar" where
  "insertFragment parent k hs d =
     (case build_list (Some parent) hs d of
        (ns, d1) \<Rightarrow>
          (ns, d1\<lparr>childNodes :=
                    (childNodes d1)(parent := take k (childNodes d1 parent) @ ns @
                                              drop k (childNodes d1 parent))\<rparr>))"

text \<open>\<^verbatim>\<open>Array.prototype.slice(start)\<close>; a negative start counts from the end.\<close>

definition slice :: "'a list \<Rightarrow> int \<Rightarrow> 'a list" where
  "slice xs start =
     (if start < 0 then drop (nat (int (length xs) + start)) xs else drop (nat start) xs)"

text \<open>
  \<^verbatim>\<open>str.match(/<li/g)\<close>: the occurrences of the literal from left to right (two
  occurrences of \<^verbatim>\<open><li\<close> cannot overlap).  The empty list stands for \<^verbatim>\<open>null\<close>.
\<close>

fun occurrences :: "string \<Rightarrow> string \<Rightarrow> string list" where
  "occurrences lit [] = []"
| "occurrences lit (c # cs) =
     (if prefix lit (c # cs) then lit # occurrences lit cs else occurrences lit cs)"

text \<open>
  \<^verbatim>\<open>cache.replace(/^<ul[^>]+>|<\/ul>$/g, '')\<close>: an opening tag of the wrapper at the
  start, with at least one code unit between \<^verbatim>\<open><ul\<close> and \<^verbatim>\<open>>\<close>, and a closing tag
  at the end are removed.
\<close>

definition strip_wrapper :: "string \<Rightarrow> string" where
  "strip_wrapper s =
     (let s1 = (case strip_prefix ''<ul'' s of
                  None \<Rightarrow> s
                | Some r \<Rightarrow>
                    if takeWhile (\<lambda>c. c \<noteq> CHR ''>'') r \<noteq> [] \<and>
                       dropWhile (\<lambda>c. c \<noteq> CHR ''>'') r \<noteq> []
                    then tl (dropWhile (\<lambda>c. c \<noteq> CHR ''>'') r) else s)
      in if suffix ''</ul>'' s1 then take (length s1 - 5) s1 else s1)"

subsection \<open>The fixup pass\<close>

text \<open>\<^verbatim>\<open>Math.round\<close>: the nearest integer, a tie going up.\<close>

definition js_round :: "rat \<Rightarrow> int" where
  "js_round x = \<lfloor>x + 1 / 2\<rfloor>"

text \<open>\<^verbatim>\<open>Math.round(count / maxCount * 33) + 33\<close>, the quotient taken exactly.\<close>

definition progressValue :: "nat \<Rightarrow> nat \<Rightarrow> int" where
  "progressValue count maxCount = js_round (of_nat count / of_nat maxCount * 33) + 33"

text \<open>
  The end of the body of both loops.  \<^verbatim>\<open>Date.now()\<close> is read; when more than the
  interval has passed since \<open>lastDraw\<close>, the counter is incremented, the progress
  \<^verbatim>\<open>Math.round(++count / maxCount * 33) + 33\<close> is reported, the frame is awaited, and
  \<^verbatim>\<open>Date.now()\<close> is read again into \<open>lastDraw\<close>.
  The loop state is the counter, \<open>lastDraw\<close> and the state of the sidebar.
\<close>

fun reportProgress :: "environment \<Rightarrow> nat \<Rightarrow> nat \<times> int \<times> sidebar \<Rightarrow> nat \<times> int \<times> sidebar" where
  "reportProgress env maxCount (count, lastDraw, d) =
     (let now = clock env (nowCalls d);
          d1 = d\<lparr>nowCalls := Suc (nowCalls d)\<rparr>
      in if now - lastDraw > kPROGRESS_INTERVAL env
         then (let d2 = d1\<lparr>progressLog := progressLog d1 @ [progressValue (Suc count) maxCount]\<rparr>
               in (Suc count, clock env (nowCalls d2), d2\<lparr>nowCalls := Suc (nowCalls d2)\<rparr>))
         else (count, lastDraw, d1))"

text \<open>
  \<^verbatim>\<open>fixupTabsRestoredFromCache(tabElements, tabs, options)\<close>.  The calls that bind each
  element to its tab and apply its states act on objects of other modules; the state
  keeps the clock and the progress only.  Step 1 runs over the indices, step 2 over
  the elements, and both share the counter.
\<close>

definition fixupTabsRestoredFromCache ::
  "environment \<Rightarrow> node list \<Rightarrow> tab list \<Rightarrow> sidebar \<Rightarrow> (error + unit) \<times> sidebar" where
  "fixupTabsRestoredFromCache env tabElements tabs' d =
     (if length tabElements \<noteq> length tabs' then (Inl Error, d)
      else (let lastDraw = clock env (nowCalls d);
                d0 = d\<lparr>nowCalls := Suc (nowCalls d)\<rparr>;
                maxCount = length tabElements * 2;
                step1 = fold (\<lambda>index. reportProgress env maxCount) [0..<length tabElements]
                          (0, lastDraw, d0);
                step2 = fold (\<lambda>tabElement. reportProgress env maxCount) tabElements step1
            in (Inr (), snd (snd step2))))"

subsection \<open>\<^verbatim>\<open>restoreTabsFromCacheInternal\<close>\<close>

text \<open>\<^verbatim>\<open>const offset = params.offset || 0\<close>.\<close>

definition offset_or_0 :: "params \<Rightarrow> int" where
  "offset_or_0 ps = (case offset ps of None \<Rightarrow> 0 | Some n \<Rightarrow> n)"

text \<open>\<^verbatim>\<open>const tabs = params.tabs.slice(offset)\<close>.\<close>

definition tabs_from_offset :: "params \<Rightarrow> tab list" where
  "tabs_from_offset ps = slice (tabs ps) (offset_or_0 ps)"

text \<open>
  The element of a boundary tab and its place: \<^verbatim>\<open>Tab.get(id).$TST.element\<close> raises a
  \<^verbatim>\<open>TypeError\<close> when there is no such tab; \<^verbatim>\<open>setStartBefore\<close> and
  \<^verbatim>\<open>setEndAfter\<close> raise a \<^verbatim>\<open>TypeError\<close> for an element that is \<^verbatim>\<open>null\<close> and an
  \<^verbatim>\<open>InvalidNodeTypeError\<close> for an element without a parent.
\<close>

definition boundary :: "environment \<Rightarrow> sidebar \<Rightarrow> int \<Rightarrow> error + node \<times> nat" where
  "boundary env d tid =
     (case tabElement env tid of
        None \<Rightarrow> Inl TypeError
      | Some None \<Rightarrow> Inl TypeError
      | Some (Some e) \<Rightarrow>
          (case parentNode d e of
             None \<Rightarrow> Inl InvalidNodeTypeError
           | Some p \<Rightarrow> Inr (p, child_index (childNodes d p) e)))"

text \<open>
  The branch \<^verbatim>\<open>offset > 0\<close> after its guard, for the container and the tabs from
  \<open>offset\<close> on.  The range starts before the element of the first tab and ends after
  the element of the last tab; an end before the start collapses the range to the end.
\<close>

definition restoreTail ::
  "environment \<Rightarrow> params \<Rightarrow> node \<Rightarrow> tab list \<Rightarrow> sidebar \<Rightarrow> (node \<times> node list) outcome \<times> sidebar" where
  "restoreTail env ps container tabs' d =
     (case tabs' of
        [] \<Rightarrow> (Raised TypeError, d)
      | first # _ \<Rightarrow>
          (case boundary env d (tab_id first) of
             Inl e \<Rightarrow> (Raised e, d)
           | Inr (p1, i1) \<Rightarrow>
               (case boundary env d (tab_id (last tabs')) of
                  Inl e \<Rightarrow> (Raised e, d)
                | Inr (p2, i2) \<Rightarrow>
                    if p1 \<noteq> container \<or> p2 \<noteq> container then (Unmodelled, d)
                    else (let j = Suc i2;
                              i = (if j < i1 then j else i1);
                              d1 = deleteContents container i j d
                          in if list_ex (\<lambda>t. tabElement env (tab_id t) = None) tabs'
                             then (Raised TypeError, d1)
                             else (case occurrences ''<li'' (cache ps) of
                                     [] \<Rightarrow> (Raised TypeError, d1)
                                   | m # ms \<Rightarrow>
                                       (case insertFragment container
                                               (length (childNodes d1 container))
                                               (createContextualFragment env (strip_wrapper (cache ps)))
                                               d1 of
                                          (ns, d2) \<Rightarrow>
                                            (Returned
                                               (container,
                                                drop (length (childNodes d2 container) - length (m # ms))
                                                  (childNodes d2 container)),
                                             d2)))))))"

text \<open>
  A live range follows the removal of a child: a boundary at the removed node moves to
  the place of the node in its parent, and a boundary in the parent after the node moves
  down by one.
\<close>

definition after_removal ::
  "node \<Rightarrow> node \<Rightarrow> nat \<Rightarrow> (node \<times> nat) option \<Rightarrow> (node \<times> nat) option" where
  "after_removal parent child i ip =
     (case ip of
        None \<Rightarrow> None
      | Some (p, k) \<Rightarrow>
          if p = child then Some (parent, i)
          else if p = parent \<and> i < k then Some (p, k - 1)
          else Some (p, k))"

text \<open>
  The branch of a full restoration: the container of the window, when there is one,
  leaves the document; the blob is parsed and inserted at the insertion point (the end
  of \<open>wholeContainer\<close> by default); the first node of the fragment is the new
  container, and setting \<^verbatim>\<open>container.id\<close> or \<^verbatim>\<open>container.dataset.windowId\<close> raises
  a \<^verbatim>\<open>TypeError\<close> when there is no such node or when it is not an element.
\<close>

definition restoreFull ::
  "environment \<Rightarrow> params \<Rightarrow> node option \<Rightarrow> sidebar \<Rightarrow> (node \<times> node list) outcome \<times> sidebar" where
  "restoreFull env ps container d =
     (case (case container of
              None \<Rightarrow> Inr (d, insertionPoint ps)
            | Some c \<Rightarrow>
                (case parentNode d c of
                   None \<Rightarrow> Inl TypeError
                 | Some p \<Rightarrow>
                     Inr (removeChild p c d,
                          after_removal p c (child_index (childNodes d p) c) (insertionPoint ps)))) of
        Inl e \<Rightarrow> (Raised e, d)
      | Inr (d1, ip) \<Rightarrow>
          (case (case ip of
                   None \<Rightarrow> (wholeContainer env, length (childNodes d1 (wholeContainer env)))
                 | Some pk \<Rightarrow> pk) of
             (p, k) \<Rightarrow>
               (case insertFragment p k (createContextualFragment env (cache ps)) d1 of
                  (ns, d2) \<Rightarrow>
                    (case ns of
                       [] \<Rightarrow> (Raised TypeError, d2)
                     | c # _ \<Rightarrow>
                         if \<not> isElement d2 c then (Raised TypeError, d2)
                         else (Returned (c, childNodes d2 c), d2)))))"

text \<open>
  The restoration of the DOM tree, up to \<^verbatim>\<open>DOM tree restoration finished\<close>: the result
  is the container and the restored elements, or \<^const>\<open>None\<close> for the early
  \<^verbatim>\<open>return []\<close> of the guard of the branch \<^verbatim>\<open>offset > 0\<close>.
\<close>

definition restoreDOM ::
  "environment \<Rightarrow> params \<Rightarrow> sidebar \<Rightarrow> (node \<times> node list) option outcome \<times> sidebar" where
  "restoreDOM env ps d =
     (case windowElement env (windowId ps) of
        None \<Rightarrow> (Raised TypeError, d)
      | Some container \<Rightarrow>
          (case (if offset_or_0 ps > 0
                 then (case container of
                         None \<Rightarrow> Inl ()
                       | Some c \<Rightarrow>
                           if int (length (childNodes d c)) \<le> offset_or_0 ps then Inl ()
                           else Inr (restoreTail env ps c (tabs_from_offset ps) d))
                 else Inr (restoreFull env ps container d)) of
             Inl u \<Rightarrow> (Returned None, d)
           | Inr (Returned r, d1) \<Rightarrow> (Returned (Some r), d1)
           | Inr (Raised e, d1) \<Rightarrow> (Raised e, d1)
           | Inr (Unmodelled, d1) \<Rightarrow> (Unmodelled, d1)))"

text \<open>
  The whole function: after the restoration of the tree, a count of elements other than
  the count of tabs removes the container and returns the empty array; otherwise the
  container leaves the document for the fixup pass and is appended to its parent again.
\<close>

definition restoreTabsFromCacheInternal ::
  "environment \<Rightarrow> params \<Rightarrow> sidebar \<Rightarrow> node list outcome \<times> sidebar" where
  "restoreTabsFromCacheInternal env ps d =
     (case restoreDOM env ps d of
        (Raised e, d1) \<Rightarrow> (Raised e, d1)
      | (Unmodelled, d1) \<Rightarrow> (Unmodelled, d1)
      | (Returned None, d1) \<Rightarrow> (Returned [], d1)
      | (Returned (Some (container, tabElements)), d1) \<Rightarrow>
          if length tabElements \<noteq> length (tabs_from_offset ps)
          then (case parentNode d1 container of
                  None \<Rightarrow> (Raised TypeError, d1)
                | Some parent \<Rightarrow> (Returned [], removeChild parent container d1))
          else (case parentNode d1 container of
                  None \<Rightarrow> (Raised TypeError, d1)
                | Some parent \<Rightarrow>
                    (case fixupTabsRestoredFromCache env tabElements (tabs_from_offset ps)
                            (removeChild parent container d1) of
                       (Inl e, d2) \<Rightarrow> (Raised e, d2)
                     | (Inr u, d2) \<Rightarrow> (Returned tabElements, appendChild parent container d2))))"

section \<open>Properties of the signature comparison\<close>

lemma indexOf_empty: "indexOf t [] = 0"
  by (cases t) simp_all

lemma indexOf_prefix: "indexOf (s @ t) s = 0"
  by (cases s) (simp_all add: indexOf_empty)

lemma indexOf_ge: "- 1 \<le> indexOf s p"
  by (induction s) (simp_all add: Let_def)

text \<open>
  The first occurrence: when the search string is at offset \<open>length pre\<close> and at no
  smaller offset, \<^const>\<open>indexOf\<close> returns that offset.
\<close>

lemma indexOf_first:
  "(\<forall>i < length pre. \<not> prefix p (drop i (pre @ p))) \<Longrightarrow> indexOf (pre @ p) p = int (length pre)"
proof (induction pre)
  case Nil
  then show ?case using indexOf_prefix [of p "[]"] by simp
next
  case (Cons c pre)
  have np: "\<not> prefix p ((c # pre) @ p)"
    using Cons.prems by (metis drop0 length_greater_0_conv list.distinct(1))
  have "\<forall>i < length pre. \<not> prefix p (drop i (pre @ p))"
  proof (intro allI impI)
    fix i assume "i < length pre"
    then have "Suc i < length (c # pre)" by simp
    then have "\<not> prefix p (drop (Suc i) ((c # pre) @ p))" using Cons.prems by blast
    then show "\<not> prefix p (drop i (pre @ p))" by simp
  qed
  then have "indexOf (pre @ p) p = int (length pre)" by (rule Cons.IH)
  then show ?case using np by (simp add: Let_def)
qed


text \<open>
  An occurrence of a non-empty \<open>p\<close> in \<open>pre @ p\<close> that starts before the final one
  lies inside \<open>pre @ butlast p\<close>.
\<close>

lemma early_occurrence_sublist:
  assumes "p \<noteq> []" and "i < length pre" and "prefix p (drop i (pre @ p))"
  shows "sublist p (pre @ butlast p)"
proof -
  from assms(3) obtain r where r: "drop i (pre @ p) = p @ r"
    by (auto simp: prefix_def)
  have "length (drop i (pre @ p)) = length pre - i + length p"
    using assms(2) by simp
  moreover have "length (drop i (pre @ p)) = length p + length r"
    by (simp only: r length_append)
  ultimately have "length r = length pre - i" by linarith
  then have rne: "r \<noteq> []" using assms(2) by auto
  have "pre @ p = take i (pre @ p) @ p @ r"
    using r by (metis append_take_drop_id)
  then have "butlast (pre @ p) = take i (pre @ p) @ p @ butlast r"
    using rne by (metis append_is_Nil_conv butlast_append)
  moreover have "butlast (pre @ p) = pre @ butlast p"
    using assms(1) by (simp add: butlast_append)
  ultimately have "pre @ butlast p = take i (pre @ p) @ p @ butlast r" by simp
  then show ?thesis unfolding sublist_def by blast
qed

text \<open>
  C1.  \<^verbatim>\<open>matcheSignatures\<close> is meant to accept exactly the pairs in which the
  non-empty actual signature ends with the non-empty cached one.  The code tests
  \<^verbatim>\<open>actual.indexOf(cached) + cached.length == actual.length\<close>, and misses both ways.
  For a window of one tab whose pinned state changed, the cached signature does not
  occur in the actual one, \<^verbatim>\<open>indexOf\<close> is \<^verbatim>\<open>-1\<close>, the cached signature is one code
  unit longer than the actual one, and the function returns \<^verbatim>\<open>true\<close> although the
  actual signature does not end with the cached one.  For a window of two tabs with the
  same line, the actual signature ends with the cached line, the first occurrence is at
  index 0, and the function returns \<^verbatim>\<open>false\<close>.
\<close>

theorem matcheSignatures_misses_suffix_test:
  "\<not> suffix ''-1,firefox-default,false,false'' ''-1,firefox-default,false,true'' \<and>
   matcheSignatures \<lparr>actual = Some ''-1,firefox-default,false,true'',
                     cached = Some ''-1,firefox-default,false,false''\<rparr> = JSBool True \<and>
   suffix ''-1,firefox-default,false,false''
     (''-1,firefox-default,false,false'' @ newline @ ''-1,firefox-default,false,false'') \<and>
   matcheSignatures
     \<lparr>actual = Some (''-1,firefox-default,false,false'' @ newline @ ''-1,firefox-default,false,false''),
      cached = Some ''-1,firefox-default,false,false''\<rparr> = JSBool False"
  by (simp add: matcheSignatures_def newline_def suffix_def Let_def)

text \<open>
  C7, as stated, at a cached signature of one line and an actual signature that
  extends it by one more line: the result is \<^verbatim>\<open>false\<close>.
\<close>

theorem matcheSignatures_trailing_line_counterexample:
  "matcheSignatures
     \<lparr>actual = Some (''-1,firefox-default,false,false'' @ newline @ ''0,firefox-default,false,false''),
      cached = Some ''-1,firefox-default,false,false''\<rparr> = JSBool False"
  by (simp add: matcheSignatures_def newline_def)

text \<open>
  C7, amended.  For every signature \<open>S\<close> and every further line \<open>extra\<close> such that
  \<open>S + "\n" + extra\<close> does not itself end with \<open>S\<close>, \<^verbatim>\<open>matcheSignatures\<close> with cached
  \<open>S\<close> and actual \<open>S + "\n" + extra\<close> is a non-match (its value is falsy): the cached
  signature has to stand at the end of the actual one, not at its start.  With the
  lines in the other order, actual \<open>extra + "\n" + S\<close>, the result is \<^verbatim>\<open>true\<close> when
  \<open>S\<close> is non-empty and does not occur in the actual signature before its end.
  Nothing is said of an actual signature in which \<open>S\<close> stands at the end and also
  earlier.
\<close>

theorem matcheSignatures_extension:
  "(\<not> suffix S (S @ newline @ extra) \<longrightarrow>
      \<not> truthy (matcheSignatures \<lparr>actual = Some (S @ newline @ extra), cached = Some S\<rparr>)) \<and>
   (S \<noteq> [] \<and> \<not> sublist S (extra @ newline @ butlast S) \<longrightarrow>
      matcheSignatures \<lparr>actual = Some (extra @ newline @ S), cached = Some S\<rparr> = JSBool True)"
proof (intro conjI impI)
  show "\<not> truthy (matcheSignatures \<lparr>actual = Some (S @ newline @ extra), cached = Some S\<rparr>)"
    by (simp add: matcheSignatures_def indexOf_prefix newline_def)
next
  assume h: "S \<noteq> [] \<and> \<not> sublist S (extra @ newline @ butlast S)"
  have "\<forall>i < length (extra @ newline). \<not> prefix S (drop i ((extra @ newline) @ S))"
    using h early_occurrence_sublist [of S _ "extra @ newline"] by auto
  then have "indexOf ((extra @ newline) @ S) S = int (length (extra @ newline))"
    by (rule indexOf_first)
  then show "matcheSignatures \<lparr>actual = Some (extra @ newline @ S), cached = Some S\<rparr> = JSBool True"
    using h by (simp add: matcheSignatures_def)
qed

theorem matcheSignatures_extension_witness:
  "\<not> suffix ''-1,firefox-default,false,false''
       (''-1,firefox-default,false,false'' @ newline @ ''0,firefox-default,false,true'') \<and>
   \<not> truthy (matcheSignatures
       \<lparr>actual = Some (''-1,firefox-default,false,false'' @ newline @ ''0,firefox-default,false,true''),
        cached = Some ''-1,firefox-default,false,false''\<rparr>) \<and>
   ''0,firefox-default,false,true'' \<noteq> [] \<and>
   \<not> sublist ''0,firefox-default,false,true''
       (''-1,firefox-default,false,false'' @ newline @ butlast ''0,firefox-default,false,true'') \<and>
   matcheSignatures
     \<lparr>actual = Some (''-1,firefox-default,false,false'' @ newline @ ''0,firefox-default,false,true''),
      cached = Some ''0,firefox-default,false,true''\<rparr> = JSBool True"
proof -
  define S where "S = ''-1,firefox-default,false,false''"
  define T where "T = ''0,firefox-default,false,true''"
  have nsuf: "\<not> suffix S (S @ newline @ T)"
    unfolding S_def T_def by code_simp
  have ne: "T \<noteq> []"
    unfolding T_def by simp
  have ns: "\<not> sublist T (S @ newline @ butlast T)"
    unfolding S_def T_def by code_simp
  have "\<not> truthy (matcheSignatures \<lparr>actual = Some (S @ newline @ T), cached = Some S\<rparr>)"
    using matcheSignatures_extension [of S T] nsuf by blast
  moreover have "matcheSignatures \<lparr>actual = Some (S @ newline @ T), cached = Some T\<rparr> = JSBool True"
    using matcheSignatures_extension [of T S] ne ns by blast
  ultimately show ?thesis using nsuf ne ns unfolding S_def T_def by blast
qed


section \<open>Properties of the signature of a tab list\<close>

lemma array_indexOf_bounds: "- 1 \<le> array_indexOf xs x \<and> array_indexOf xs x < int (length xs)"
  by (induction xs) (auto simp: Let_def)

lemma split_not_Nil: "split sep s \<noteq> []"
  by (induction s) (auto split: list.splits)

lemma split_no_sep: "sep \<notin> set l \<Longrightarrow> split sep l = [l]"
  by (induction l) auto

lemma split_append_sep:
  "sep \<notin> set l \<Longrightarrow> split sep (l @ sep # rest) = l # split sep rest"
  by (induction l) auto

lemma split_join:
  "ls \<noteq> [] \<Longrightarrow> (\<forall>l \<in> set ls. sep \<notin> set l) \<Longrightarrow> split sep (join [sep] ls) = ls"
proof (induction ls)
  case Nil
  then show ?case by simp
next
  case (Cons x ls)
  show ?case
  proof (cases ls)
    case Nil
    then show ?thesis using Cons.prems by (simp add: split_no_sep)
  next
    case (Cons y ys)
    then have "split sep (join [sep] ls) = ls" using Cons.IH Cons.prems by simp
    then show ?thesis using Cons Cons.prems by (simp add: split_append_sep)
  qed
qed

lemma digit_set: "d < 10 \<Longrightarrow> digit d \<in> set ''0123456789''"
  unfolding digit_def by (rule nth_mem) simp

lemma digits_set: "set (digits n) \<subseteq> set ''0123456789''"
proof (induction n rule: digits.induct)
  case (1 n)
  show ?case
  proof (cases "n < 10")
    case True
    then show ?thesis using digit_set [of n] by (subst digits.simps) simp
  next
    case False
    have "digit (n mod 10) \<in> set ''0123456789''" by (rule digit_set) simp
    then show ?thesis using False 1 by (subst digits.simps) simp
  qed
qed

lemma show_int_no_newline: "CHR 0x0A \<notin> set (show_int n)"
  using digits_set [of "nat n"] digits_set [of "nat (- n)"]
  by (auto simp: show_int_def)

lemma show_bool_no_newline: "CHR 0x0A \<notin> set (show_bool b)"
  by (simp add: show_bool_def)

lemma show_int_minus_one: "show_int (- 1) = ''-1''"
  by (simp add: show_int_def digits.simps digit_def)

lemma parentIndex_bounds:
  "parentIndex tabIds t = - 1 \<or> (0 \<le> parentIndex tabIds t \<and> parentIndex tabIds t < int (length tabIds))"
proof -
  have "array_indexOf tabIds x = - 1 \<or> (0 \<le> array_indexOf tabIds x \<and> array_indexOf tabIds x < int (length tabIds))" for x
    using array_indexOf_bounds [of tabIds x] by arith
  then show ?thesis
    by (auto simp: parentIndex_def split: option.splits)
qed

lemma show_int_zero: "show_int 0 = ''0''"
  by (simp add: show_int_def digits.simps digit_def)

lemma signatureLine_no_newline:
  "CHR 0x0A \<notin> set (cookieStoreId t) \<Longrightarrow> CHR 0x0A \<notin> set (signatureLine tabIds t)"
  using show_int_no_newline show_bool_no_newline
  by (simp add: signatureLine_def)


lemma getWindowSignature_split:
  assumes "L \<noteq> []" and "\<forall>i < length L. CHR 0x0A \<notin> set (cookieStoreId (L ! i))"
  shows "split (CHR 0x0A) (getWindowSignature L) = map (signatureLine (map tab_id L)) L"
proof -
  let ?ls = "map (signatureLine (map tab_id L)) L"
  have "\<forall>l \<in> set ?ls. CHR 0x0A \<notin> set l"
  proof
    fix l assume "l \<in> set ?ls"
    then obtain t where t: "t \<in> set L" "l = signatureLine (map tab_id L) t" by auto
    then obtain i where "i < length L" "L ! i = t" by (auto simp: in_set_conv_nth)
    then have "CHR 0x0A \<notin> set (cookieStoreId t)" using assms(2) by auto
    then show "CHR 0x0A \<notin> set l" using t signatureLine_no_newline by simp
  qed
  moreover have "?ls \<noteq> []" using assms(1) by simp
  ultimately have "split (CHR 0x0A) (join [CHR 0x0A] ?ls) = ?ls" by (rule split_join [rotated])
  then show ?thesis by (simp add: getWindowSignature_def newline_def)
qed

text \<open>
  C8.  For every list \<open>L\<close> of tab records, \<^verbatim>\<open>getWindowSignature(L)\<close> is the
  newline-join of \<open>length L\<close> lines, line \<open>i\<close> is the line of tab \<open>i\<close>, and its
  parent index is \<open>-1\<close> or an index into \<open>L\<close>.  When \<open>L\<close> is not empty and no
  \<^verbatim>\<open>cookieStoreId\<close> holds a newline, these are the lines that splitting the
  signature at newlines gives.
\<close>

theorem getWindowSignature_lines:
  "\<exists>ls. getWindowSignature L = join newline ls \<and> length ls = length L \<and>
     (\<forall>i < length L.
        ls ! i = show_int (parentIndex (map tab_id L) (L ! i)) @ '','' @ cookieStoreId (L ! i) @ '','' @
                 show_bool (incognito (L ! i)) @ '','' @ show_bool (pinned (L ! i)) \<and>
        (parentIndex (map tab_id L) (L ! i) = - 1 \<or>
         (0 \<le> parentIndex (map tab_id L) (L ! i) \<and> parentIndex (map tab_id L) (L ! i) < int (length L)))) \<and>
     (L \<noteq> [] \<and> (\<forall>i < length L. CHR 0x0A \<notin> set (cookieStoreId (L ! i))) \<longrightarrow>
        split (CHR 0x0A) (getWindowSignature L) = ls)"
proof -
  let ?ls = "map (signatureLine (map tab_id L)) L"
  have a: "getWindowSignature L = join newline ?ls"
    by (simp add: getWindowSignature_def)
  have b: "length ?ls = length L" by simp
  have c: "\<forall>i < length L.
        ?ls ! i = show_int (parentIndex (map tab_id L) (L ! i)) @ '','' @ cookieStoreId (L ! i) @ '','' @
                 show_bool (incognito (L ! i)) @ '','' @ show_bool (pinned (L ! i)) \<and>
        (parentIndex (map tab_id L) (L ! i) = - 1 \<or>
         (0 \<le> parentIndex (map tab_id L) (L ! i) \<and> parentIndex (map tab_id L) (L ! i) < int (length L)))"
    using parentIndex_bounds [of "map tab_id L"] by (simp add: signatureLine_def)
  have d: "split (CHR 0x0A) (getWindowSignature L) = ?ls"
    if "L \<noteq> [] \<and> (\<forall>i < length L. CHR 0x0A \<notin> set (cookieStoreId (L ! i)))"
    using that getWindowSignature_split by blast
  show ?thesis using a b c d by blast
qed

theorem getWindowSignature_lines_witness:
  "split (CHR 0x0A)
     (getWindowSignature
        [\<lparr>tab_id = 1, openerTabId = None, cookieStoreId = ''firefox-default'', incognito = False, pinned = False\<rparr>,
         \<lparr>tab_id = 2, openerTabId = Some 1, cookieStoreId = ''firefox-default'', incognito = False, pinned = True\<rparr>])
   = [''-1,firefox-default,false,false'', ''0,firefox-default,false,true'']"
proof -
  let ?L = "[\<lparr>tab_id = 1, openerTabId = None, cookieStoreId = ''firefox-default'', incognito = False, pinned = False\<rparr>,
         \<lparr>tab_id = 2, openerTabId = Some 1, cookieStoreId = ''firefox-default'', incognito = False, pinned = True\<rparr>]"
  obtain ls where ls: "length ls = length ?L"
    "\<forall>i < length ?L.
        ls ! i = show_int (parentIndex (map tab_id ?L) (?L ! i)) @ '','' @ cookieStoreId (?L ! i) @ '','' @
                 show_bool (incognito (?L ! i)) @ '','' @ show_bool (pinned (?L ! i))"
    "?L \<noteq> [] \<and> (\<forall>i < length ?L. CHR 0x0A \<notin> set (cookieStoreId (?L ! i))) \<longrightarrow>
        split (CHR 0x0A) (getWindowSignature ?L) = ls"
    using getWindowSignature_lines [of ?L] by blast
  have hyp: "?L \<noteq> [] \<and> (\<forall>i < length ?L. CHR 0x0A \<notin> set (cookieStoreId (?L ! i)))"
    by (simp add: less_Suc_eq)
  have l0: "ls ! 0 = ''-1,firefox-default,false,false''"
    using ls(2) by (simp add: parentIndex_def show_int_minus_one show_int_zero show_bool_def)
  have l1: "ls ! 1 = ''0,firefox-default,false,true''"
    using ls(2) by (simp add: parentIndex_def show_int_minus_one show_int_zero show_bool_def)
  have "ls = [ls ! 0, ls ! 1]" using ls(1)
    by (cases ls; cases "tl ls") auto
  then have "ls = [''-1,firefox-default,false,false'', ''0,firefox-default,false,true'']"
    using l0 l1 by simp
  then show ?thesis using ls(3) hyp by simp
qed

section \<open>Properties of the signature of a markup blob\<close>


lemma exec_from_cookieStoreId:
  "exec_from cookieStoreIdMatcher pw s = Some a \<Longrightarrow> \<exists>w. a = [w]"
  by (induction s arbitrary: pw)
     (auto simp: cookieStoreIdMatcher_def split: option.splits if_splits)

lemma match_cookieStoreId_group:
  "match s cookieStoreIdMatcher = Some a \<Longrightarrow> element a (Suc 0) = None"
  using exec_from_cookieStoreId [of False s a] by (auto simp: match_def)


lemma cachedTabOf_cookieStoreId:
  "cachedTabOf k1 k2 m = Inr t \<Longrightarrow> cached_cookieStoreId t = ''contextual-identity-firefox-default''"
  by (auto simp: cachedTabOf_def Let_def split: option.splits dest: match_cookieStoreId_group)


lemma map_raising_Inr:
  "map_raising f xs = Inr ys \<Longrightarrow> length ys = length xs \<and> (\<forall>i < length xs. f (xs ! i) = Inr (ys ! i))"
proof (induction xs arbitrary: ys)
  case Nil
  then show ?case by simp
next
  case (Cons x xs)
  then show ?case
    by (auto split: sum.splits simp: nth_Cons split: nat.splits)
qed





lemma cachedLine_no_newline:
  "CHR 0x0A \<notin> set (cached_cookieStoreId t) \<Longrightarrow> CHR 0x0A \<notin> set (cachedLine tabIds t)"
  using show_int_no_newline show_bool_no_newline
  by (simp add: cachedLine_def)


lemma signatureFromTabsCache_lines:
  assumes "signatureFromTabsCache k1 k2 blob = Inr sig"
  shows "\<exists>tabs. map_raising (cachedTabOf k1 k2) (matchAll_li blob) = Inr tabs \<and>
           sig = join newline (map (cachedLine (map cached_id tabs)) tabs) \<and>
           (tabs \<noteq> [] \<longrightarrow> split (CHR 0x0A) sig = map (cachedLine (map cached_id tabs)) tabs)"
proof -
  from assms obtain tabs where
    tabs: "map_raising (cachedTabOf k1 k2) (matchAll_li blob) = Inr tabs" and
    sig: "sig = join newline (map (cachedLine (map cached_id tabs)) tabs)"
    by (auto simp: signatureFromTabsCache_def Let_def split: sum.splits)
  let ?ls = "map (cachedLine (map cached_id tabs)) tabs"
  have each: "\<forall>i < length (matchAll_li blob). cachedTabOf k1 k2 (matchAll_li blob ! i) = Inr (tabs ! i)"
    and len: "length tabs = length (matchAll_li blob)"
    using map_raising_Inr [OF tabs] by auto
  have nonl: "\<forall>l \<in> set ?ls. CHR 0x0A \<notin> set l"
  proof
    fix l assume "l \<in> set ?ls"
    then obtain t where t: "t \<in> set tabs" "l = cachedLine (map cached_id tabs) t" by auto
    then obtain i where "i < length tabs" "tabs ! i = t" by (auto simp: in_set_conv_nth)
    then have "cached_cookieStoreId t = ''contextual-identity-firefox-default''"
      using each len cachedTabOf_cookieStoreId by metis
    then have "CHR 0x0A \<notin> set (cached_cookieStoreId t)" by simp
    then show "CHR 0x0A \<notin> set l" using t cachedLine_no_newline by simp
  qed
  have "split (CHR 0x0A) sig = ?ls" if "tabs \<noteq> []"
  proof -
    have "?ls \<noteq> []" using that by simp
    then show ?thesis using split_join [OF _ nonl] by (simp add: sig newline_def)
  qed
  then show ?thesis using tabs sig by blast
qed

lemma cachedTabOf_parentId:
  "cachedTabOf k1 k2 m = Inr t \<Longrightarrow> match m (parentMatcher k2) = Some a \<Longrightarrow>
   element a (Suc 0) = Some v \<Longrightarrow> parentId t = Some (parseInt v)"
  by (auto simp: cachedTabOf_def Let_def split: option.splits)

text \<open>
  C10.  Whenever \<^verbatim>\<open>signatureFromTabsCache\<close> returns a signature, every line of it,
  one per matched fragment, has \<^verbatim>\<open>contextual-identity-firefox-default\<close> as its
  \<^verbatim>\<open>cookieStoreId\<close> component, whatever the class attribute holds: the match array
  of \<^verbatim>\<open>cookieStoreIdMatcher\<close> has no element 1.
\<close>

theorem signatureFromTabsCache_default_cookieStoreId:
  "signatureFromTabsCache kAPI_TAB_ID kPARENT cachedTabs = Inr sig \<Longrightarrow>
   \<exists>ls. sig = join newline ls \<and> length ls = length (matchAll_li cachedTabs) \<and>
     (\<forall>l \<in> set ls. \<exists>p i q. l = show_int p @ '','' @ ''contextual-identity-firefox-default'' @ '','' @
                                 show_bool i @ '','' @ show_bool q) \<and>
     (ls \<noteq> [] \<longrightarrow> split (CHR 0x0A) sig = ls)"
proof -
  assume h: "signatureFromTabsCache kAPI_TAB_ID kPARENT cachedTabs = Inr sig"
  then obtain tabs where
    tabs: "map_raising (cachedTabOf kAPI_TAB_ID kPARENT) (matchAll_li cachedTabs) = Inr tabs" and
    sig: "sig = join newline (map (cachedLine (map cached_id tabs)) tabs)" and
    sp: "tabs \<noteq> [] \<longrightarrow> split (CHR 0x0A) sig = map (cachedLine (map cached_id tabs)) tabs"
    using signatureFromTabsCache_lines by blast
  let ?ls = "map (cachedLine (map cached_id tabs)) tabs"
  have len: "length tabs = length (matchAll_li cachedTabs)"
    and each: "\<forall>i < length (matchAll_li cachedTabs).
                 cachedTabOf kAPI_TAB_ID kPARENT (matchAll_li cachedTabs ! i) = Inr (tabs ! i)"
    using map_raising_Inr [OF tabs] by auto
  have form: "\<forall>l \<in> set ?ls. \<exists>p i q. l = show_int p @ '','' @ ''contextual-identity-firefox-default'' @ '','' @
                                 show_bool i @ '','' @ show_bool q"
  proof
    fix l assume "l \<in> set ?ls"
    then obtain t where t: "t \<in> set tabs" "l = cachedLine (map cached_id tabs) t" by auto
    then obtain i where "i < length tabs" "tabs ! i = t" by (auto simp: in_set_conv_nth)
    then have "cached_cookieStoreId t = ''contextual-identity-firefox-default''"
      using each len cachedTabOf_cookieStoreId by metis
    then have "l = show_int (cachedParentIndex (map cached_id tabs) t) @ '','' @
                   ''contextual-identity-firefox-default'' @ '','' @
                   show_bool (cached_incognito t) @ '','' @ show_bool (cached_pinned t)"
      using t by (simp add: cachedLine_def)
    then show "\<exists>p i q. l = show_int p @ '','' @ ''contextual-identity-firefox-default'' @ '','' @
                                 show_bool i @ '','' @ show_bool q" by blast
  qed
  have "?ls \<noteq> [] \<longrightarrow> split (CHR 0x0A) sig = ?ls" using sp by simp
  then show ?thesis using sig len form
    by (intro exI [of _ ?ls]) simp
qed

theorem signatureFromTabsCache_default_cookieStoreId_witness:
  "signatureFromTabsCache ''data-tab-id'' ''data-parent-id''
     ''<ul><li data-tab-id=\"1\" class=\"tab contextual-identity-firefox-container-1\">x</li></ul>''
   = Inr ''-1,contextual-identity-firefox-default,false,false'' \<and>
   (\<exists>ls. ''-1,contextual-identity-firefox-default,false,false'' = join newline ls \<and>
      length ls = 1 \<and> split (CHR 0x0A) ''-1,contextual-identity-firefox-default,false,false'' = ls)"
proof -
  define blob where
    "blob = ''<ul><li data-tab-id=\"1\" class=\"tab contextual-identity-firefox-container-1\">x</li></ul>''"
  define sig where "sig = ''-1,contextual-identity-firefox-default,false,false''"
  have e: "signatureFromTabsCache ''data-tab-id'' ''data-parent-id'' blob = Inr sig"
    unfolding blob_def sig_def by code_simp
  have n: "length (matchAll_li blob) = 1"
    unfolding blob_def by code_simp
  from signatureFromTabsCache_default_cookieStoreId [OF e]
  obtain ls where ls: "sig = join newline ls" "length ls = length (matchAll_li blob)"
    "ls \<noteq> [] \<longrightarrow> split (CHR 0x0A) sig = ls"
    by blast
  have "length ls = 1" using ls(2) n by simp
  moreover from this have "ls \<noteq> []" by auto
  ultimately have "sig = join newline ls \<and> length ls = 1 \<and> split (CHR 0x0A) sig = ls"
    using ls by blast
  then have "\<exists>ls. sig = join newline ls \<and> length ls = 1 \<and> split (CHR 0x0A) sig = ls"
    by blast
  with e show ?thesis unfolding blob_def sig_def by blast
qed

text \<open>
  C9.  A tab record whose \<^verbatim>\<open>openerTabId\<close> is absent or 0 gets the parent index
  \<open>-1\<close> in \<^verbatim>\<open>getWindowSignature\<close>, whatever ids the list holds, and its line of the
  signature starts with \<^verbatim>\<open>-1,\<close> (the lines are read by splitting the signature, for
  a list without a newline in a \<^verbatim>\<open>cookieStoreId\<close>); and a fragment whose parent attribute parses to 0 or to
  \<^verbatim>\<open>NaN\<close> gets the parent index \<open>-1\<close> in its line of \<^verbatim>\<open>signatureFromTabsCache\<close>,
  whatever ids the blob holds.
\<close>

theorem falsy_parent_is_parentless:
  "(i < length L \<and> (openerTabId (L ! i) = None \<or> openerTabId (L ! i) = Some 0) \<longrightarrow>
      parentIndex (map tab_id L) (L ! i) = - 1) \<and>
   (i < length L \<and> (openerTabId (L ! i) = None \<or> openerTabId (L ! i) = Some 0) \<and>
    (\<forall>j < length L. CHR 0x0A \<notin> set (cookieStoreId (L ! j))) \<longrightarrow>
      split (CHR 0x0A) (getWindowSignature L) ! i =
        ''-1,'' @ cookieStoreId (L ! i) @ '','' @ show_bool (incognito (L ! i)) @ '','' @
        show_bool (pinned (L ! i))) \<and>
   (signatureFromTabsCache kAPI_TAB_ID kPARENT cachedTabs = Inr sig \<and>
    k < length (matchAll_li cachedTabs) \<and>
    match (matchAll_li cachedTabs ! k) (parentMatcher kPARENT) = Some parentMatched \<and>
    element parentMatched 1 = Some v \<and> (parseInt v = Num 0 \<or> parseInt v = NaN) \<longrightarrow>
      (\<exists>inc pin. split (CHR 0x0A) sig ! k =
         ''-1,contextual-identity-firefox-default,'' @ show_bool inc @ '','' @ show_bool pin))"
proof (intro conjI impI)
  assume "i < length L \<and> (openerTabId (L ! i) = None \<or> openerTabId (L ! i) = Some 0)"
  then show "parentIndex (map tab_id L) (L ! i) = - 1"
    by (auto simp: parentIndex_def)
next
  assume h: "i < length L \<and> (openerTabId (L ! i) = None \<or> openerTabId (L ! i) = Some 0) \<and>
    (\<forall>j < length L. CHR 0x0A \<notin> set (cookieStoreId (L ! j)))"
  then have ne: "L \<noteq> []" by auto
  have "parentIndex (map tab_id L) (L ! i) = - 1"
    using h by (auto simp: parentIndex_def)
  then have "signatureLine (map tab_id L) (L ! i) =
        ''-1,'' @ cookieStoreId (L ! i) @ '','' @ show_bool (incognito (L ! i)) @ '','' @
        show_bool (pinned (L ! i))"
    by (simp add: signatureLine_def show_int_minus_one)
  moreover have "split (CHR 0x0A) (getWindowSignature L) ! i = signatureLine (map tab_id L) (L ! i)"
    using getWindowSignature_split [OF ne] h by simp
  ultimately show "split (CHR 0x0A) (getWindowSignature L) ! i =
        ''-1,'' @ cookieStoreId (L ! i) @ '','' @ show_bool (incognito (L ! i)) @ '','' @
        show_bool (pinned (L ! i))"
    by simp
next
  assume h: "signatureFromTabsCache kAPI_TAB_ID kPARENT cachedTabs = Inr sig \<and>
    k < length (matchAll_li cachedTabs) \<and>
    match (matchAll_li cachedTabs ! k) (parentMatcher kPARENT) = Some parentMatched \<and>
    element parentMatched 1 = Some v \<and> (parseInt v = Num 0 \<or> parseInt v = NaN)"
  then obtain tabs where
    tabs: "map_raising (cachedTabOf kAPI_TAB_ID kPARENT) (matchAll_li cachedTabs) = Inr tabs" and
    sp: "tabs \<noteq> [] \<longrightarrow> split (CHR 0x0A) sig = map (cachedLine (map cached_id tabs)) tabs"
    using signatureFromTabsCache_lines by blast
  have len: "length tabs = length (matchAll_li cachedTabs)"
    and each: "\<forall>i < length (matchAll_li cachedTabs).
                 cachedTabOf kAPI_TAB_ID kPARENT (matchAll_li cachedTabs ! i) = Inr (tabs ! i)"
    using map_raising_Inr [OF tabs] by auto
  let ?t = "tabs ! k"
  have ct: "cachedTabOf kAPI_TAB_ID kPARENT (matchAll_li cachedTabs ! k) = Inr ?t"
    using each h by blast
  have "parentId ?t = Some (parseInt v)"
    using cachedTabOf_parentId [OF ct] h by simp
  then have "cachedParentIndex (map cached_id tabs) ?t = - 1"
    using h by (auto simp: cachedParentIndex_def)
  moreover have "cached_cookieStoreId ?t = ''contextual-identity-firefox-default''"
    using ct by (rule cachedTabOf_cookieStoreId)
  ultimately have line: "cachedLine (map cached_id tabs) ?t =
      ''-1,contextual-identity-firefox-default,'' @ show_bool (cached_incognito ?t) @ '','' @
      show_bool (cached_pinned ?t)"
    by (simp add: cachedLine_def show_int_minus_one)
  have "tabs \<noteq> []" using len h by auto
  then have "split (CHR 0x0A) sig ! k = cachedLine (map cached_id tabs) ?t"
    using sp len h by simp
  then show "\<exists>inc pin. split (CHR 0x0A) sig ! k =
         ''-1,contextual-identity-firefox-default,'' @ show_bool inc @ '','' @ show_bool pin"
    using line by metis
qed

theorem falsy_parent_is_parentless_witness:
  "split (CHR 0x0A)
     (getWindowSignature
        [\<lparr>tab_id = 0, openerTabId = None, cookieStoreId = ''firefox-default'', incognito = False,
          pinned = False\<rparr>,
         \<lparr>tab_id = 5, openerTabId = Some 0, cookieStoreId = ''firefox-default'', incognito = False,
          pinned = False\<rparr>]) ! 1
   = ''-1,firefox-default,false,false'' \<and>
   signatureFromTabsCache ''data-tab-id'' ''data-parent-id''
     ''<ul><li data-tab-id=\"0\" class=\"tab\">a</li><li data-tab-id=\"5\" class=\"tab\" data-parent-id=\"0\">b</li></ul>''
   = Inr (''-1,contextual-identity-firefox-default,false,false'' @ newline @
          ''-1,contextual-identity-firefox-default,false,false'') \<and>
   (\<exists>inc pin.
      split (CHR 0x0A)
        (''-1,contextual-identity-firefox-default,false,false'' @ newline @
         ''-1,contextual-identity-firefox-default,false,false'') ! 1
      = ''-1,contextual-identity-firefox-default,'' @ show_bool inc @ '','' @ show_bool pin)"
proof -
  define L where "L = [\<lparr>tab_id = 0, openerTabId = None, cookieStoreId = ''firefox-default'', incognito = False,
          pinned = False\<rparr>,
         \<lparr>tab_id = 5, openerTabId = Some 0, cookieStoreId = ''firefox-default'', incognito = False,
          pinned = False\<rparr>]"
  define blob where "blob = ''<ul><li data-tab-id=\"0\" class=\"tab\">a</li><li data-tab-id=\"5\" class=\"tab\" data-parent-id=\"0\">b</li></ul>''"
  define sig where "sig = ''-1,contextual-identity-firefox-default,false,false'' @ newline @
          ''-1,contextual-identity-firefox-default,false,false''"
  have a: "1 < length L \<and> (openerTabId (L ! 1) = None \<or> openerTabId (L ! 1) = Some 0) \<and>
    (\<forall>j < length L. CHR 0x0A \<notin> set (cookieStoreId (L ! j)))"
    by (simp add: L_def less_Suc_eq)
  have b: "signatureFromTabsCache ''data-tab-id'' ''data-parent-id'' blob = Inr sig"
    unfolding blob_def sig_def by code_simp
  have c: "1 < length (matchAll_li blob)"
    unfolding blob_def by code_simp
  have d: "match (matchAll_li blob ! 1) (parentMatcher ''data-parent-id'') = Some [''data-parent-id=\"0\"'', ''0'']"
    unfolding blob_def by code_simp
  have e: "element [''data-parent-id=\"0\"'', ''0''] 1 = Some ''0'' \<and> (parseInt ''0'' = Num 0 \<or> parseInt ''0'' = NaN)"
    by code_simp
  have "split (CHR 0x0A) (getWindowSignature L) ! 1 =
        ''-1,'' @ cookieStoreId (L ! 1) @ '','' @ show_bool (incognito (L ! 1)) @ '','' @
        show_bool (pinned (L ! 1))"
    using falsy_parent_is_parentless [of 1 L "''data-tab-id''" "''data-parent-id''" blob sig 1
        "[''data-parent-id=\"0\"'', ''0'']" "''0''"] a
    by blast
  then have f: "split (CHR 0x0A) (getWindowSignature L) ! 1 = ''-1,firefox-default,false,false''"
    by (simp add: L_def show_bool_def)
  have g: "\<exists>inc pin. split (CHR 0x0A) sig ! 1 =
         ''-1,contextual-identity-firefox-default,'' @ show_bool inc @ '','' @ show_bool pin"
    using falsy_parent_is_parentless [of 1 L "''data-tab-id''" "''data-parent-id''" blob sig 1
        "[''data-parent-id=\"0\"'', ''0'']" "''0''"] b c d e
    by blast
  show ?thesis using f b g unfolding L_def blob_def sig_def by blast
qed

text \<open>
  C2, at a window of two tabs: the second tab is a child of the first and lives in a
  container.  The blob holds one fragment per tab, with the tab id, the class of the
  container, and the raw id of the parent.  The signature of the records names the
  \<^verbatim>\<open>cookieStoreId\<close> of each tab; the signature of the blob has
  \<^verbatim>\<open>contextual-identity-firefox-default\<close> in both lines.
\<close>

theorem round_trip_loses_cookieStoreId:
  "getWindowSignature
     [\<lparr>tab_id = 1, openerTabId = None, cookieStoreId = ''firefox-default'', incognito = False,
       pinned = False\<rparr>,
      \<lparr>tab_id = 2, openerTabId = Some 1, cookieStoreId = ''firefox-container-1'', incognito = False,
       pinned = False\<rparr>]
   = ''-1,firefox-default,false,false'' @ newline @ ''0,firefox-container-1,false,false'' \<and>
   signatureFromTabsCache ''data-tab-id'' ''data-parent-id''
     ''<ul><li data-tab-id=\"1\" class=\"tab contextual-identity-firefox-default\">a</li><li data-tab-id=\"2\" class=\"tab contextual-identity-firefox-container-1\" data-parent-id=\"1\">b</li></ul>''
   = Inr (''-1,contextual-identity-firefox-default,false,false'' @ newline @
          ''0,contextual-identity-firefox-default,false,false'')"
  by code_simp




section \<open>Properties of the restoration\<close>

text \<open>
  A boundary tab can be located in the live DOM when \<^verbatim>\<open>Tab.get\<close> gives a tab, the
  tab has an element, and the element has a parent.
\<close>

definition located :: "environment \<Rightarrow> sidebar \<Rightarrow> int \<Rightarrow> bool" where
  "located env d tid =
     (case tabElement env tid of
        Some (Some e) \<Rightarrow> parentNode d e \<noteq> None
      | _ \<Rightarrow> False)"

lemma boundary_not_located:
  "\<not> located env d tid \<Longrightarrow> boundary env d tid = Inl TypeError \<or> boundary env d tid = Inl InvalidNodeTypeError"
  by (auto simp: located_def boundary_def split: option.splits)

lemma restoreTail_boundary_missing:
  assumes "tabs' = [] \<or> \<not> located env d (tab_id (hd tabs')) \<or> \<not> located env d (tab_id (last tabs'))"
  shows "restoreTail env ps c tabs' d = (Raised TypeError, d) \<or>
         restoreTail env ps c tabs' d = (Raised InvalidNodeTypeError, d)"
proof (cases tabs')
  case Nil
  then show ?thesis by (simp add: restoreTail_def)
next
  case (Cons first rest)
  show ?thesis
  proof (cases "boundary env d (tab_id first)")
    case (Inl e)
    then have "restoreTail env ps c tabs' d = (Raised e, d)"
      using Cons by (simp add: restoreTail_def)
    moreover have "e = TypeError \<or> e = InvalidNodeTypeError"
      using Inl by (auto simp: boundary_def split: option.splits)
    ultimately show ?thesis by auto
  next
    case (Inr b1)
    then have "located env d (tab_id first)"
      by (auto simp: boundary_def located_def split: option.splits)
    then have "\<not> located env d (tab_id (last tabs'))" using assms Cons by auto
    then obtain e where e: "boundary env d (tab_id (last tabs')) = Inl e"
      "e = TypeError \<or> e = InvalidNodeTypeError"
      using boundary_not_located by blast
    have "restoreTail env ps c tabs' d = (Raised e, d)"
      using Cons Inr e(1) by (cases b1) (simp add: restoreTail_def)
    then show ?thesis using e(2) by auto
  qed
qed

text \<open>
  C3, as stated, at the scenario of the specification: a window of three tabs whose
  container holds three elements, a tail restoration with \<^verbatim>\<open>offset\<close> 1, and no tab
  with id 2 in the store.  The call raises a \<^verbatim>\<open>TypeError\<close> and leaves the document as
  it was; it does not return the empty array.
\<close>

theorem tail_restoration_missing_tab_counterexample:
  "restoreTabsFromCacheInternal
     \<lparr>windowElement = (\<lambda>w. if w = 7 then Some (Some 1) else None),
      tabElement = (\<lambda>i. if i = 1 then Some (Some 10) else if i = 3 then Some (Some 12) else None),
      wholeContainer = 0,
      createContextualFragment = (\<lambda>s. [HElement [], HElement []]),
      clock = (\<lambda>n. int n), kPROGRESS_INTERVAL = 16\<rparr>
     \<lparr>windowId = 7,
      tabs = [\<lparr>tab_id = 1, openerTabId = None, cookieStoreId = ''firefox-default'', incognito = False, pinned = False\<rparr>,
              \<lparr>tab_id = 2, openerTabId = None, cookieStoreId = ''firefox-default'', incognito = False, pinned = False\<rparr>,
              \<lparr>tab_id = 3, openerTabId = None, cookieStoreId = ''firefox-default'', incognito = False, pinned = False\<rparr>],
      cache = ''<li>b</li><li>c</li>'', offset = Some 1, insertionPoint = None, shouldUpdate = False\<rparr>
     \<lparr>parentNode = (\<lambda>n. if n = 1 then Some 0 else if n = 10 \<or> n = 11 \<or> n = 12 then Some 1 else None),
      childNodes = (\<lambda>n. if n = 0 then [1] else if n = 1 then [10, 11, 12] else []),
      isElement = (\<lambda>n. True), nextNode = 20, nowCalls = 0, progressLog = []\<rparr>
   = (Raised TypeError,
      \<lparr>parentNode = (\<lambda>n. if n = 1 then Some 0 else if n = 10 \<or> n = 11 \<or> n = 12 then Some 1 else None),
       childNodes = (\<lambda>n. if n = 0 then [1] else if n = 1 then [10, 11, 12] else []),
       isElement = (\<lambda>n. True), nextNode = 20, nowCalls = 0, progressLog = []\<rparr>)"
  by (simp add: restoreTabsFromCacheInternal_def restoreDOM_def restoreTail_def slice_def boundary_def
        offset_or_0_def tabs_from_offset_def)

text \<open>
  C3, amended.  In a tail restoration (\<^verbatim>\<open>offset > 0\<close>) with a container of more than
  \<^verbatim>\<open>offset\<close> child nodes, when there is no tab from \<^verbatim>\<open>offset\<close> on, or the first or
  the last of them cannot be located in the live DOM, the call raises (a
  \<^verbatim>\<open>TypeError\<close> or an \<^verbatim>\<open>InvalidNodeTypeError\<close>) and the document is not mutated.
  The empty result without a mutation is what the guard of the branch gives: when the
  window has no container, or the container has at most \<^verbatim>\<open>offset\<close> child nodes.
\<close>

theorem tail_restoration_boundary_missing:
  "(offset ps = Some off \<and> 0 < off \<and> windowElement env (windowId ps) = Some (Some c) \<and>
    off < int (length (childNodes d c)) \<and>
    (tabs_from_offset ps = [] \<or>
     \<not> located env d (tab_id (hd (tabs_from_offset ps))) \<or>
     \<not> located env d (tab_id (last (tabs_from_offset ps)))) \<longrightarrow>
      restoreTabsFromCacheInternal env ps d = (Raised TypeError, d) \<or>
      restoreTabsFromCacheInternal env ps d = (Raised InvalidNodeTypeError, d)) \<and>
   (offset ps = Some off \<and> 0 < off \<and>
    (windowElement env (windowId ps) = Some None \<or>
     (windowElement env (windowId ps) = Some (Some c) \<and> int (length (childNodes d c)) \<le> off)) \<longrightarrow>
      restoreTabsFromCacheInternal env ps d = (Returned [], d))"
proof (intro conjI impI)
  assume h: "offset ps = Some off \<and> 0 < off \<and> windowElement env (windowId ps) = Some (Some c) \<and>
    off < int (length (childNodes d c)) \<and>
    (tabs_from_offset ps = [] \<or>
     \<not> located env d (tab_id (hd (tabs_from_offset ps))) \<or>
     \<not> located env d (tab_id (last (tabs_from_offset ps))))"
  then have "restoreTail env ps c (tabs_from_offset ps) d = (Raised TypeError, d) \<or>
         restoreTail env ps c (tabs_from_offset ps) d = (Raised InvalidNodeTypeError, d)"
    by (intro restoreTail_boundary_missing) simp
  then have "restoreDOM env ps d = (Raised TypeError, d) \<or> restoreDOM env ps d = (Raised InvalidNodeTypeError, d)"
    using h by (auto simp: restoreDOM_def offset_or_0_def)
  then show "restoreTabsFromCacheInternal env ps d = (Raised TypeError, d) \<or>
      restoreTabsFromCacheInternal env ps d = (Raised InvalidNodeTypeError, d)"
    by (auto simp: restoreTabsFromCacheInternal_def)
next
  assume h: "offset ps = Some off \<and> 0 < off \<and>
    (windowElement env (windowId ps) = Some None \<or>
     (windowElement env (windowId ps) = Some (Some c) \<and> int (length (childNodes d c)) \<le> off))"
  then have "restoreDOM env ps d = (Returned None, d)"
    by (auto simp: restoreDOM_def offset_or_0_def)
  then show "restoreTabsFromCacheInternal env ps d = (Returned [], d)"
    by (simp add: restoreTabsFromCacheInternal_def)
qed

theorem tail_restoration_boundary_missing_witness:
  "\<not> located
      \<lparr>windowElement = (\<lambda>w. if w = 7 then Some (Some 1) else None),
      tabElement = (\<lambda>i. if i = 1 then Some (Some 10) else if i = 3 then Some (Some 12) else None),
      wholeContainer = 0,
      createContextualFragment = (\<lambda>s. [HElement [], HElement []]),
      clock = (\<lambda>n. int n), kPROGRESS_INTERVAL = 16\<rparr>
      \<lparr>parentNode = (\<lambda>n. if n = 1 then Some 0 else if n = 10 \<or> n = 11 \<or> n = 12 then Some 1 else None),
      childNodes = (\<lambda>n. if n = 0 then [1] else if n = 1 then [10, 11, 12] else []),
      isElement = (\<lambda>n. True), nextNode = 20, nowCalls = 0, progressLog = []\<rparr> 2 \<and>
   (restoreTabsFromCacheInternal
      \<lparr>windowElement = (\<lambda>w. if w = 7 then Some (Some 1) else None),
      tabElement = (\<lambda>i. if i = 1 then Some (Some 10) else if i = 3 then Some (Some 12) else None),
      wholeContainer = 0,
      createContextualFragment = (\<lambda>s. [HElement [], HElement []]),
      clock = (\<lambda>n. int n), kPROGRESS_INTERVAL = 16\<rparr>
      \<lparr>windowId = 7,
      tabs = [\<lparr>tab_id = 1, openerTabId = None, cookieStoreId = ''firefox-default'', incognito = False, pinned = False\<rparr>,
              \<lparr>tab_id = 2, openerTabId = None, cookieStoreId = ''firefox-default'', incognito = False, pinned = False\<rparr>,
              \<lparr>tab_id = 3, openerTabId = None, cookieStoreId = ''firefox-default'', incognito = False, pinned = False\<rparr>],
      cache = ''<li>b</li><li>c</li>'', offset = Some 1, insertionPoint = None, shouldUpdate = False\<rparr>
      \<lparr>parentNode = (\<lambda>n. if n = 1 then Some 0 else if n = 10 \<or> n = 11 \<or> n = 12 then Some 1 else None),
      childNodes = (\<lambda>n. if n = 0 then [1] else if n = 1 then [10, 11, 12] else []),
      isElement = (\<lambda>n. True), nextNode = 20, nowCalls = 0, progressLog = []\<rparr>
    = (Raised TypeError,
       \<lparr>parentNode = (\<lambda>n. if n = 1 then Some 0 else if n = 10 \<or> n = 11 \<or> n = 12 then Some 1 else None),
      childNodes = (\<lambda>n. if n = 0 then [1] else if n = 1 then [10, 11, 12] else []),
      isElement = (\<lambda>n. True), nextNode = 20, nowCalls = 0, progressLog = []\<rparr>) \<or>
    restoreTabsFromCacheInternal
      \<lparr>windowElement = (\<lambda>w. if w = 7 then Some (Some 1) else None),
      tabElement = (\<lambda>i. if i = 1 then Some (Some 10) else if i = 3 then Some (Some 12) else None),
      wholeContainer = 0,
      createContextualFragment = (\<lambda>s. [HElement [], HElement []]),
      clock = (\<lambda>n. int n), kPROGRESS_INTERVAL = 16\<rparr>
      \<lparr>windowId = 7,
      tabs = [\<lparr>tab_id = 1, openerTabId = None, cookieStoreId = ''firefox-default'', incognito = False, pinned = False\<rparr>,
              \<lparr>tab_id = 2, openerTabId = None, cookieStoreId = ''firefox-default'', incognito = False, pinned = False\<rparr>,
              \<lparr>tab_id = 3, openerTabId = None, cookieStoreId = ''firefox-default'', incognito = False, pinned = False\<rparr>],
      cache = ''<li>b</li><li>c</li>'', offset = Some 1, insertionPoint = None, shouldUpdate = False\<rparr>
      \<lparr>parentNode = (\<lambda>n. if n = 1 then Some 0 else if n = 10 \<or> n = 11 \<or> n = 12 then Some 1 else None),
      childNodes = (\<lambda>n. if n = 0 then [1] else if n = 1 then [10, 11, 12] else []),
      isElement = (\<lambda>n. True), nextNode = 20, nowCalls = 0, progressLog = []\<rparr>
    = (Raised InvalidNodeTypeError,
       \<lparr>parentNode = (\<lambda>n. if n = 1 then Some 0 else if n = 10 \<or> n = 11 \<or> n = 12 then Some 1 else None),
      childNodes = (\<lambda>n. if n = 0 then [1] else if n = 1 then [10, 11, 12] else []),
      isElement = (\<lambda>n. True), nextNode = 20, nowCalls = 0, progressLog = []\<rparr>)) \<and>
   restoreTabsFromCacheInternal
      \<lparr>windowElement = (\<lambda>w. if w = 7 then Some (Some 1) else None),
      tabElement = (\<lambda>i. if i = 1 then Some (Some 10) else if i = 3 then Some (Some 12) else None),
      wholeContainer = 0,
      createContextualFragment = (\<lambda>s. [HElement [], HElement []]),
      clock = (\<lambda>n. int n), kPROGRESS_INTERVAL = 16\<rparr>
      \<lparr>windowId = 7,
      tabs = [\<lparr>tab_id = 1, openerTabId = None, cookieStoreId = ''firefox-default'', incognito = False, pinned = False\<rparr>,
              \<lparr>tab_id = 2, openerTabId = None, cookieStoreId = ''firefox-default'', incognito = False, pinned = False\<rparr>,
              \<lparr>tab_id = 3, openerTabId = None, cookieStoreId = ''firefox-default'', incognito = False, pinned = False\<rparr>],
      cache = ''<li>b</li><li>c</li>'', offset = Some 3, insertionPoint = None, shouldUpdate = False\<rparr>
      \<lparr>parentNode = (\<lambda>n. if n = 1 then Some 0 else if n = 10 \<or> n = 11 \<or> n = 12 then Some 1 else None),
      childNodes = (\<lambda>n. if n = 0 then [1] else if n = 1 then [10, 11, 12] else []),
      isElement = (\<lambda>n. True), nextNode = 20, nowCalls = 0, progressLog = []\<rparr>
    = (Returned [],
       \<lparr>parentNode = (\<lambda>n. if n = 1 then Some 0 else if n = 10 \<or> n = 11 \<or> n = 12 then Some 1 else None),
      childNodes = (\<lambda>n. if n = 0 then [1] else if n = 1 then [10, 11, 12] else []),
      isElement = (\<lambda>n. True), nextNode = 20, nowCalls = 0, progressLog = []\<rparr>)"
proof -
  define env where "env = \<lparr>windowElement = (\<lambda>w. if w = 7 then Some (Some 1) else None),
      tabElement = (\<lambda>i. if i = 1 then Some (Some 10) else if i = 3 then Some (Some 12) else None),
      wholeContainer = 0,
      createContextualFragment = (\<lambda>s. [HElement [], HElement []]),
      clock = (\<lambda>n. int n), kPROGRESS_INTERVAL = 16\<rparr>"
  define d where "d = \<lparr>parentNode = (\<lambda>n. if n = 1 then Some 0 else if n = 10 \<or> n = 11 \<or> n = 12 then Some 1 else None),
      childNodes = (\<lambda>n. if n = 0 then [1] else if n = 1 then [10, 11, 12] else []),
      isElement = (\<lambda>n. True), nextNode = 20, nowCalls = 0, progressLog = []\<rparr>"
  define ps where "ps = \<lparr>windowId = 7,
      tabs = [\<lparr>tab_id = 1, openerTabId = None, cookieStoreId = ''firefox-default'', incognito = False, pinned = False\<rparr>,
              \<lparr>tab_id = 2, openerTabId = None, cookieStoreId = ''firefox-default'', incognito = False, pinned = False\<rparr>,
              \<lparr>tab_id = 3, openerTabId = None, cookieStoreId = ''firefox-default'', incognito = False, pinned = False\<rparr>],
      cache = ''<li>b</li><li>c</li>'', offset = Some 1, insertionPoint = None, shouldUpdate = False\<rparr>"
  define ps' where "ps' = \<lparr>windowId = 7,
      tabs = [\<lparr>tab_id = 1, openerTabId = None, cookieStoreId = ''firefox-default'', incognito = False, pinned = False\<rparr>,
              \<lparr>tab_id = 2, openerTabId = None, cookieStoreId = ''firefox-default'', incognito = False, pinned = False\<rparr>,
              \<lparr>tab_id = 3, openerTabId = None, cookieStoreId = ''firefox-default'', incognito = False, pinned = False\<rparr>],
      cache = ''<li>b</li><li>c</li>'', offset = Some 3, insertionPoint = None, shouldUpdate = False\<rparr>"
  have t: "tabs_from_offset ps = [\<lparr>tab_id = 2, openerTabId = None, cookieStoreId = ''firefox-default'', incognito = False, pinned = False\<rparr>, \<lparr>tab_id = 3, openerTabId = None, cookieStoreId = ''firefox-default'', incognito = False, pinned = False\<rparr>]"
    by (simp add: tabs_from_offset_def offset_or_0_def slice_def ps_def)
  have nl: "\<not> located env d 2"
    by (simp add: located_def env_def)
  have h1: "offset ps = Some 1 \<and> 0 < (1::int) \<and> windowElement env (windowId ps) = Some (Some 1) \<and>
            1 < int (length (childNodes d 1)) \<and>
            (tabs_from_offset ps = [] \<or>
             \<not> located env d (tab_id (hd (tabs_from_offset ps))) \<or>
             \<not> located env d (tab_id (last (tabs_from_offset ps))))"
    using nl by (simp add: t) (simp add: ps_def env_def d_def)
  have h2: "offset ps' = Some 3 \<and> 0 < (3::int) \<and>
            (windowElement env (windowId ps') = Some None \<or>
             (windowElement env (windowId ps') = Some (Some 1) \<and> int (length (childNodes d 1)) \<le> 3))"
    by (simp add: ps'_def env_def d_def)
  have "restoreTabsFromCacheInternal env ps d = (Raised TypeError, d) \<or>
        restoreTabsFromCacheInternal env ps d = (Raised InvalidNodeTypeError, d)"
    using tail_restoration_boundary_missing [of ps 1 env 1 d] h1 by blast
  moreover have "restoreTabsFromCacheInternal env ps' d = (Returned [], d)"
    using tail_restoration_boundary_missing [of ps' 3 env 1 d] h2 by blast
  ultimately show ?thesis using nl unfolding env_def d_def ps_def ps'_def by blast
qed

text \<open>
  Fresh nodes: building a fragment allocates its nodes from \<open>nextNode\<close> on and leaves
  the parents of the nodes below \<open>nextNode\<close> as they were.
\<close>

lemma build_fresh:
  "build q h d = (n, d') \<Longrightarrow>
     n = nextNode d \<and> nextNode d < nextNode d' \<and> parentNode d' n = q \<and>
     (\<forall>m < nextNode d. parentNode d' m = parentNode d m)"
  "build_list q hs d = (ns, d') \<Longrightarrow>
     nextNode d \<le> nextNode d' \<and> (\<forall>m < nextNode d. parentNode d' m = parentNode d m)"
proof (induction q h d and q hs d arbitrary: n d' and ns d' rule: build_build_list.induct)
  case (1 parent d)
  then show ?case by (auto simp: Let_def)
next
  case (2 parent hs d)
  let ?n = "nextNode d"
  let ?d1 = "d\<lparr>nextNode := Suc ?n, isElement := (isElement d)(?n := True),
                 parentNode := (parentNode d)(?n := parent)\<rparr>"
  obtain ks d2 where b: "build_list (Some ?n) hs ?d1 = (ks, d2)" by (cases "build_list (Some ?n) hs ?d1") auto
  have ih: "nextNode ?d1 \<le> nextNode d2 \<and> (\<forall>m < nextNode ?d1. parentNode d2 m = parentNode ?d1 m)"
    using "2.IH" [OF refl refl b] .
  have res: "n = ?n" "d' = d2\<lparr>childNodes := (childNodes d2)(?n := ks)\<rparr>"
    using "2.prems" b by (auto simp: Let_def)
  show ?case using ih res by auto
next
  case (3 parent d)
  then show ?case by simp
next
  case (4 parent h hs d)
  obtain n1 d1 where b1: "build parent h d = (n1, d1)" by (cases "build parent h d") auto
  obtain ns2 d2 where b2: "build_list parent hs d1 = (ns2, d2)" by (cases "build_list parent hs d1") auto
  have i1: "n1 = nextNode d \<and> nextNode d < nextNode d1 \<and> parentNode d1 n1 = parent \<and>
     (\<forall>m < nextNode d. parentNode d1 m = parentNode d m)"
    using "4.IH"(1) [OF b1] .
  have i2: "nextNode d1 \<le> nextNode d2 \<and> (\<forall>m < nextNode d1. parentNode d2 m = parentNode d1 m)"
    using "4.IH"(2) [OF b1 [symmetric] b2] .
  have "d' = d2" using "4.prems" b1 b2 by simp
  then show ?case using i1 i2 by auto
qed

lemma build_list_first_parent:
  assumes "build_list q hs d = (c # ns, d')"
  shows "parentNode d' c = q \<and> c = nextNode d"
proof (cases hs)
  case Nil
  then show ?thesis using assms by simp
next
  case (Cons h hs')
  obtain n1 d1 where b1: "build q h d = (n1, d1)" by (cases "build q h d") auto
  obtain ns2 d2 where b2: "build_list q hs' d1 = (ns2, d2)" by (cases "build_list q hs' d1") auto
  have r: "c = n1" "d' = d2" using assms Cons b1 b2 by auto
  have f1: "n1 = nextNode d" "nextNode d < nextNode d1" "parentNode d1 n1 = q"
    using build_fresh(1) [OF b1] by blast+
  have "\<forall>m < nextNode d1. parentNode d2 m = parentNode d1 m"
    using build_fresh(2) [OF b2] by blast
  then have "parentNode d2 n1 = parentNode d1 n1" using f1(1,2) by blast
  then show ?thesis using f1 r by simp
qed

lemma insertFragment_parent:
  "insertFragment p k hs d = (ns, d') \<Longrightarrow>
     (\<forall>m < nextNode d. parentNode d' m = parentNode d m) \<and>
     (\<forall>c rest. ns = c # rest \<longrightarrow> parentNode d' c = Some p)"
proof -
  assume h: "insertFragment p k hs d = (ns, d')"
  obtain d1 where b: "build_list (Some p) hs d = (ns, d1)"
    and d': "d' = d1\<lparr>childNodes := (childNodes d1)(p := take k (childNodes d1 p) @ ns @ drop k (childNodes d1 p))\<rparr>"
    using h by (auto simp: insertFragment_def split: prod.splits)
  have "\<forall>m < nextNode d. parentNode d1 m = parentNode d m"
    using build_fresh(2) [OF b] by simp
  moreover have "parentNode d1 c = Some p" if "ns = c # rest" for c rest
  proof -
    have "build_list (Some p) hs d = (c # rest, d1)" using b that by simp
    then show ?thesis by (rule build_list_first_parent [THEN conjunct1])
  qed
  ultimately show ?thesis using d' by auto
qed

lemma removeChild_detaches:
  "parentNode (removeChild p c d) c = None \<and> c \<notin> set (childNodes (removeChild p c d) p)"
  by (simp add: removeChild_def)

lemma deleteContents_parent:
  "c \<notin> set (childNodes d c) \<Longrightarrow> parentNode (deleteContents c i j d) c = parentNode d c"
  by (auto simp: deleteContents_def Let_def dest: in_set_takeD in_set_dropD)

lemma deleteContents_nextNode: "nextNode (deleteContents c i j d) = nextNode d"
  by (simp add: deleteContents_def Let_def)

lemma restoreTail_Returned:
  assumes "restoreTail env ps c tabs' d = (Returned (c', els), d1)"
  shows "c' = c \<and>
         (\<exists>i j ns. insertFragment c (length (childNodes (deleteContents c i j d) c))
                     (createContextualFragment env (strip_wrapper (cache ps)))
                     (deleteContents c i j d) = (ns, d1))"
proof -
  obtain first rest where t: "tabs' = first # rest"
    using assms by (cases tabs') (auto simp: restoreTail_def)
  obtain p1 i1 where b1: "boundary env d (tab_id first) = Inr (p1, i1)"
    using assms t by (cases "boundary env d (tab_id first)") (auto simp: restoreTail_def)
  obtain p2 i2 where b2: "boundary env d (tab_id (last (first # rest))) = Inr (p2, i2)"
    using assms t b1
    by (cases "boundary env d (tab_id (last (first # rest)))") (auto simp: restoreTail_def)
  have pc: "p1 = c \<and> p2 = c"
  proof (rule ccontr)
    assume "\<not> (p1 = c \<and> p2 = c)"
    then have "restoreTail env ps c tabs' d = (Unmodelled, d)"
      using t b1 b2 by (auto simp: restoreTail_def)
    then show False using assms by simp
  qed
  define i where "i = (if Suc i2 < i1 then Suc i2 else i1)"
  define d0 where "d0 = deleteContents c i (Suc i2) d"
  have unfold: "restoreTail env ps c tabs' d =
     (if list_ex (\<lambda>t. tabElement env (tab_id t) = None) tabs'
      then (Raised TypeError, d0)
      else (case occurrences ''<li'' (cache ps) of
              [] \<Rightarrow> (Raised TypeError, d0)
            | m # ms \<Rightarrow>
                (case insertFragment c (length (childNodes d0 c))
                        (createContextualFragment env (strip_wrapper (cache ps))) d0 of
                   (ns, d2) \<Rightarrow>
                     (Returned
                        (c, drop (length (childNodes d2 c) - length (m # ms)) (childNodes d2 c)),
                      d2))))"
    unfolding restoreTail_def d0_def i_def t
    using b1 b2 pc by (simp only: list.case sum.case prod.case Let_def if_False simp_thms)
  obtain ns d2 where ins: "insertFragment c (length (childNodes d0 c))
                     (createContextualFragment env (strip_wrapper (cache ps))) d0 = (ns, d2)"
    by (cases "insertFragment c (length (childNodes d0 c))
                     (createContextualFragment env (strip_wrapper (cache ps))) d0") auto
  have "c' = c \<and> d1 = d2"
    using assms unfolding unfold ins
    by (auto split: if_splits list.splits)
  then show ?thesis using ins d0_def by blast
qed

lemma restoreTail_container_attached:
  assumes "restoreTail env ps c tabs' d = (Returned (c', els), d1)"
    and "c \<notin> set (childNodes d c)" and "c < nextNode d"
  shows "c' = c \<and> parentNode d1 c = parentNode d c"
proof -
  from restoreTail_Returned [OF assms(1)] obtain i j ns where
    c': "c' = c" and
    ins: "insertFragment c (length (childNodes (deleteContents c i j d) c))
            (createContextualFragment env (strip_wrapper (cache ps))) (deleteContents c i j d)
          = (ns, d1)"
    by blast
  have "c < nextNode (deleteContents c i j d)" using assms(3) by (simp add: deleteContents_nextNode)
  then have "parentNode d1 c = parentNode (deleteContents c i j d) c"
    using insertFragment_parent [OF ins] by blast
  then show ?thesis using c' deleteContents_parent [OF assms(2)] by simp
qed

lemma restoreFull_Returned:
  assumes "restoreFull env ps container d = (Returned (c, els), d1)"
  shows "\<exists>d0 p k ns. insertFragment p k (createContextualFragment env (cache ps)) d0 = (c # ns, d1)"
proof -
  define pre where "pre = (case container of
              None \<Rightarrow> Inr (d, insertionPoint ps)
            | Some c \<Rightarrow>
                (case parentNode d c of
                   None \<Rightarrow> Inl TypeError
                 | Some p \<Rightarrow>
                     Inr (removeChild p c d,
                          after_removal p c (child_index (childNodes d p) c) (insertionPoint ps))))"
  obtain d0 ip where pre: "pre = Inr (d0, ip)"
    using assms by (cases pre) (auto simp: restoreFull_def pre_def [symmetric])
  define pk where "pk = (case ip of
                   None \<Rightarrow> (wholeContainer env, length (childNodes d0 (wholeContainer env)))
                 | Some pk \<Rightarrow> pk)"
  obtain p k where pk: "pk = (p, k)" by (cases pk) auto
  obtain ns d2 where ins: "insertFragment p k (createContextualFragment env (cache ps)) d0 = (ns, d2)"
    by (cases "insertFragment p k (createContextualFragment env (cache ps)) d0") auto
  have r: "restoreFull env ps container d =
        (case ns of
           [] \<Rightarrow> (Raised TypeError, d2)
         | c # _ \<Rightarrow>
             if \<not> isElement d2 c then (Raised TypeError, d2)
             else (Returned (c, childNodes d2 c), d2))"
    using pre pk ins by (simp add: restoreFull_def pre_def [symmetric] pk_def [symmetric])
  then obtain rest where "ns = c # rest" "d1 = d2"
    using assms by (cases ns) (auto split: if_splits)
  then show ?thesis using ins by blast
qed

lemma restoreFull_container_attached:
  assumes "restoreFull env ps container d = (Returned (c, els), d1)"
  shows "\<exists>p. parentNode d1 c = Some p"
proof -
  from restoreFull_Returned [OF assms] obtain d0 p k ns where
    ins: "insertFragment p k (createContextualFragment env (cache ps)) d0 = (c # ns, d1)"
    by blast
  then have "parentNode d1 c = Some p" using insertFragment_parent by blast
  then show ?thesis by blast
qed

text \<open>
  C4, as stated, at a tail restoration with \<^verbatim>\<open>offset\<close> 1 for a window of three tabs
  whose container is not in the document (it has no parent): the cache holds one
  \<^verbatim>\<open><li\<close> for the two tabs from \<^verbatim>\<open>offset\<close> on, the restoration of the tree ends with
  one element, and removing the container raises a \<^verbatim>\<open>TypeError\<close>.
\<close>

theorem count_mismatch_detached_container_counterexample:
  "fst (restoreDOM
      \<lparr>windowElement = (\<lambda>w. if w = 7 then Some (Some 1) else None),
      tabElement = (\<lambda>i. if i = 1 then Some (Some 10) else if i = 2 then Some (Some 11)
                         else if i = 3 then Some (Some 12) else None),
      wholeContainer = 0,
      createContextualFragment = (\<lambda>s. [HElement []]),
      clock = (\<lambda>n. int n), kPROGRESS_INTERVAL = 16\<rparr>
      \<lparr>windowId = 7,
      tabs = [\<lparr>tab_id = 1, openerTabId = None, cookieStoreId = ''firefox-default'', incognito = False, pinned = False\<rparr>,
              \<lparr>tab_id = 2, openerTabId = None, cookieStoreId = ''firefox-default'', incognito = False, pinned = False\<rparr>,
              \<lparr>tab_id = 3, openerTabId = None, cookieStoreId = ''firefox-default'', incognito = False, pinned = False\<rparr>],
      cache = ''<li>b</li>'', offset = Some 1, insertionPoint = None, shouldUpdate = False\<rparr>
      \<lparr>parentNode = (\<lambda>n. if n = 10 \<or> n = 11 \<or> n = 12 then Some 1 else None),
      childNodes = (\<lambda>n. if n = 1 then [10, 11, 12] else []),
      isElement = (\<lambda>n. True), nextNode = 20, nowCalls = 0, progressLog = []\<rparr>) = Returned (Some (1, [20])) \<and>
   length [20 :: nat] \<noteq> length (tabs_from_offset
      \<lparr>windowId = 7,
      tabs = [\<lparr>tab_id = 1, openerTabId = None, cookieStoreId = ''firefox-default'', incognito = False, pinned = False\<rparr>,
              \<lparr>tab_id = 2, openerTabId = None, cookieStoreId = ''firefox-default'', incognito = False, pinned = False\<rparr>,
              \<lparr>tab_id = 3, openerTabId = None, cookieStoreId = ''firefox-default'', incognito = False, pinned = False\<rparr>],
      cache = ''<li>b</li>'', offset = Some 1, insertionPoint = None, shouldUpdate = False\<rparr>) \<and>
   fst (restoreTabsFromCacheInternal
      \<lparr>windowElement = (\<lambda>w. if w = 7 then Some (Some 1) else None),
      tabElement = (\<lambda>i. if i = 1 then Some (Some 10) else if i = 2 then Some (Some 11)
                         else if i = 3 then Some (Some 12) else None),
      wholeContainer = 0,
      createContextualFragment = (\<lambda>s. [HElement []]),
      clock = (\<lambda>n. int n), kPROGRESS_INTERVAL = 16\<rparr>
      \<lparr>windowId = 7,
      tabs = [\<lparr>tab_id = 1, openerTabId = None, cookieStoreId = ''firefox-default'', incognito = False, pinned = False\<rparr>,
              \<lparr>tab_id = 2, openerTabId = None, cookieStoreId = ''firefox-default'', incognito = False, pinned = False\<rparr>,
              \<lparr>tab_id = 3, openerTabId = None, cookieStoreId = ''firefox-default'', incognito = False, pinned = False\<rparr>],
      cache = ''<li>b</li>'', offset = Some 1, insertionPoint = None, shouldUpdate = False\<rparr>
      \<lparr>parentNode = (\<lambda>n. if n = 10 \<or> n = 11 \<or> n = 12 then Some 1 else None),
      childNodes = (\<lambda>n. if n = 1 then [10, 11, 12] else []),
      isElement = (\<lambda>n. True), nextNode = 20, nowCalls = 0, progressLog = []\<rparr>) = Raised TypeError"
  by code_simp

text \<open>
  C4, amended.  When the restoration of the tree ends, without raising, with a container
  and a list of elements whose length is not the number of tabs from \<^verbatim>\<open>offset\<close> on,
  and the container is in the document, the call returns the empty array, raises
  nothing, and the container has left the document: it has no parent and is no child
  of its former parent.  In a full restoration the container is the first node of the
  inserted fragment, which always has a parent.  In a tail restoration the container
  is the one of the window, and it is in the document when it is so before the call
  (it has a parent, is not its own child, and is below \<open>nextNode\<close>).
\<close>

theorem count_mismatch_removes_container:
  "restoreDOM env ps d = (Returned (Some (c, tabElements)), d1) \<and>
   length tabElements \<noteq> length (tabs_from_offset ps) \<and>
   (0 < offset_or_0 ps \<longrightarrow> parentNode d c \<noteq> None \<and> c \<notin> set (childNodes d c) \<and> c < nextNode d)
   \<longrightarrow> (\<exists>p. parentNode d1 c = Some p \<and>
            restoreTabsFromCacheInternal env ps d = (Returned [], removeChild p c d1) \<and>
            parentNode (removeChild p c d1) c = None \<and>
            c \<notin> set (childNodes (removeChild p c d1) p))"
proof
  assume h: "restoreDOM env ps d = (Returned (Some (c, tabElements)), d1) \<and>
   length tabElements \<noteq> length (tabs_from_offset ps) \<and>
   (0 < offset_or_0 ps \<longrightarrow> parentNode d c \<noteq> None \<and> c \<notin> set (childNodes d c) \<and> c < nextNode d)"
  have "\<exists>p. parentNode d1 c = Some p"
  proof (cases "0 < offset_or_0 ps")
    case True
    then obtain c0 where "restoreTail env ps c0 (tabs_from_offset ps) d = (Returned (c, tabElements), d1)"
      and c0: "windowElement env (windowId ps) = Some (Some c0)"
      using h by (auto simp: restoreDOM_def split: option.splits if_splits outcome.splits prod.splits)
    moreover have "restoreTail env ps c0 (tabs_from_offset ps) d = (Returned (c', els), d') \<Longrightarrow> c' = c0" for c' els d'
      by (auto simp: restoreTail_def Let_def split: list.splits sum.splits prod.splits if_splits)
    ultimately have t: "restoreTail env ps c (tabs_from_offset ps) d = (Returned (c, tabElements), d1)"
      by blast
    have "parentNode d1 c = parentNode d c"
      using restoreTail_container_attached [OF t] h True by blast
    then show ?thesis using h True by auto
  next
    case False
    then obtain container where "restoreFull env ps container d = (Returned (c, tabElements), d1)"
      using h by (auto simp: restoreDOM_def split: option.splits if_splits outcome.splits prod.splits)
    then show ?thesis by (rule restoreFull_container_attached)
  qed
  then obtain p where p: "parentNode d1 c = Some p" by blast
  have "restoreTabsFromCacheInternal env ps d = (Returned [], removeChild p c d1)"
    using h p by (simp add: restoreTabsFromCacheInternal_def)
  then show "\<exists>p. parentNode d1 c = Some p \<and>
            restoreTabsFromCacheInternal env ps d = (Returned [], removeChild p c d1) \<and>
            parentNode (removeChild p c d1) c = None \<and>
            c \<notin> set (childNodes (removeChild p c d1) p)"
    using p removeChild_detaches by blast
qed

theorem count_mismatch_removes_container_witness:
  "fst (restoreDOM
      \<lparr>windowElement = (\<lambda>w. if w = 7 then Some (Some 1) else None),
      tabElement = (\<lambda>i. if i = 1 then Some (Some 10) else if i = 2 then Some (Some 11) else None),
      wholeContainer = 0,
      createContextualFragment = (\<lambda>s. [HElement [HElement [], HElement [], HElement []]]),
      clock = (\<lambda>n. int n), kPROGRESS_INTERVAL = 16\<rparr>
      \<lparr>windowId = 7,
      tabs = [\<lparr>tab_id = 1, openerTabId = None, cookieStoreId = ''firefox-default'', incognito = False, pinned = False\<rparr>,
              \<lparr>tab_id = 2, openerTabId = None, cookieStoreId = ''firefox-default'', incognito = False, pinned = False\<rparr>],
      cache = ''<ul><li>a</li><li>b</li><li>c</li></ul>'', offset = None, insertionPoint = None, shouldUpdate = False\<rparr>
      \<lparr>parentNode = (\<lambda>n. if n = 1 then Some 0 else if n = 10 \<or> n = 11 \<or> n = 12 then Some 1 else None),
      childNodes = (\<lambda>n. if n = 0 then [1] else if n = 1 then [10, 11, 12] else []),
      isElement = (\<lambda>n. True), nextNode = 20, nowCalls = 0, progressLog = []\<rparr>) = Returned (Some (20, [21, 22, 23])) \<and>
   fst (restoreTabsFromCacheInternal
      \<lparr>windowElement = (\<lambda>w. if w = 7 then Some (Some 1) else None),
      tabElement = (\<lambda>i. if i = 1 then Some (Some 10) else if i = 2 then Some (Some 11) else None),
      wholeContainer = 0,
      createContextualFragment = (\<lambda>s. [HElement [HElement [], HElement [], HElement []]]),
      clock = (\<lambda>n. int n), kPROGRESS_INTERVAL = 16\<rparr>
      \<lparr>windowId = 7,
      tabs = [\<lparr>tab_id = 1, openerTabId = None, cookieStoreId = ''firefox-default'', incognito = False, pinned = False\<rparr>,
              \<lparr>tab_id = 2, openerTabId = None, cookieStoreId = ''firefox-default'', incognito = False, pinned = False\<rparr>],
      cache = ''<ul><li>a</li><li>b</li><li>c</li></ul>'', offset = None, insertionPoint = None, shouldUpdate = False\<rparr>
      \<lparr>parentNode = (\<lambda>n. if n = 1 then Some 0 else if n = 10 \<or> n = 11 \<or> n = 12 then Some 1 else None),
      childNodes = (\<lambda>n. if n = 0 then [1] else if n = 1 then [10, 11, 12] else []),
      isElement = (\<lambda>n. True), nextNode = 20, nowCalls = 0, progressLog = []\<rparr>) = Returned [] \<and>
   parentNode (snd (restoreTabsFromCacheInternal
      \<lparr>windowElement = (\<lambda>w. if w = 7 then Some (Some 1) else None),
      tabElement = (\<lambda>i. if i = 1 then Some (Some 10) else if i = 2 then Some (Some 11) else None),
      wholeContainer = 0,
      createContextualFragment = (\<lambda>s. [HElement [HElement [], HElement [], HElement []]]),
      clock = (\<lambda>n. int n), kPROGRESS_INTERVAL = 16\<rparr>
      \<lparr>windowId = 7,
      tabs = [\<lparr>tab_id = 1, openerTabId = None, cookieStoreId = ''firefox-default'', incognito = False, pinned = False\<rparr>,
              \<lparr>tab_id = 2, openerTabId = None, cookieStoreId = ''firefox-default'', incognito = False, pinned = False\<rparr>],
      cache = ''<ul><li>a</li><li>b</li><li>c</li></ul>'', offset = None, insertionPoint = None, shouldUpdate = False\<rparr>
      \<lparr>parentNode = (\<lambda>n. if n = 1 then Some 0 else if n = 10 \<or> n = 11 \<or> n = 12 then Some 1 else None),
      childNodes = (\<lambda>n. if n = 0 then [1] else if n = 1 then [10, 11, 12] else []),
      isElement = (\<lambda>n. True), nextNode = 20, nowCalls = 0, progressLog = []\<rparr>)) 20 = None \<and>
   fst (restoreDOM
      \<lparr>windowElement = (\<lambda>w. if w = 7 then Some (Some 1) else None),
      tabElement = (\<lambda>i. if i = 1 then Some (Some 10) else if i = 2 then Some (Some 11)
                         else if i = 3 then Some (Some 12) else None),
      wholeContainer = 0,
      createContextualFragment = (\<lambda>s. [HElement []]),
      clock = (\<lambda>n. int n), kPROGRESS_INTERVAL = 16\<rparr>
      \<lparr>windowId = 7,
      tabs = [\<lparr>tab_id = 1, openerTabId = None, cookieStoreId = ''firefox-default'', incognito = False, pinned = False\<rparr>,
              \<lparr>tab_id = 2, openerTabId = None, cookieStoreId = ''firefox-default'', incognito = False, pinned = False\<rparr>,
              \<lparr>tab_id = 3, openerTabId = None, cookieStoreId = ''firefox-default'', incognito = False, pinned = False\<rparr>],
      cache = ''<li>b</li>'', offset = Some 1, insertionPoint = None, shouldUpdate = False\<rparr>
      \<lparr>parentNode = (\<lambda>n. if n = 1 then Some 0 else if n = 10 \<or> n = 11 \<or> n = 12 then Some 1 else None),
      childNodes = (\<lambda>n. if n = 0 then [1] else if n = 1 then [10, 11, 12] else []),
      isElement = (\<lambda>n. True), nextNode = 20, nowCalls = 0, progressLog = []\<rparr>) = Returned (Some (1, [20])) \<and>
   fst (restoreTabsFromCacheInternal
      \<lparr>windowElement = (\<lambda>w. if w = 7 then Some (Some 1) else None),
      tabElement = (\<lambda>i. if i = 1 then Some (Some 10) else if i = 2 then Some (Some 11)
                         else if i = 3 then Some (Some 12) else None),
      wholeContainer = 0,
      createContextualFragment = (\<lambda>s. [HElement []]),
      clock = (\<lambda>n. int n), kPROGRESS_INTERVAL = 16\<rparr>
      \<lparr>windowId = 7,
      tabs = [\<lparr>tab_id = 1, openerTabId = None, cookieStoreId = ''firefox-default'', incognito = False, pinned = False\<rparr>,
              \<lparr>tab_id = 2, openerTabId = None, cookieStoreId = ''firefox-default'', incognito = False, pinned = False\<rparr>,
              \<lparr>tab_id = 3, openerTabId = None, cookieStoreId = ''firefox-default'', incognito = False, pinned = False\<rparr>],
      cache = ''<li>b</li>'', offset = Some 1, insertionPoint = None, shouldUpdate = False\<rparr>
      \<lparr>parentNode = (\<lambda>n. if n = 1 then Some 0 else if n = 10 \<or> n = 11 \<or> n = 12 then Some 1 else None),
      childNodes = (\<lambda>n. if n = 0 then [1] else if n = 1 then [10, 11, 12] else []),
      isElement = (\<lambda>n. True), nextNode = 20, nowCalls = 0, progressLog = []\<rparr>) = Returned [] \<and>
   parentNode (snd (restoreTabsFromCacheInternal
      \<lparr>windowElement = (\<lambda>w. if w = 7 then Some (Some 1) else None),
      tabElement = (\<lambda>i. if i = 1 then Some (Some 10) else if i = 2 then Some (Some 11)
                         else if i = 3 then Some (Some 12) else None),
      wholeContainer = 0,
      createContextualFragment = (\<lambda>s. [HElement []]),
      clock = (\<lambda>n. int n), kPROGRESS_INTERVAL = 16\<rparr>
      \<lparr>windowId = 7,
      tabs = [\<lparr>tab_id = 1, openerTabId = None, cookieStoreId = ''firefox-default'', incognito = False, pinned = False\<rparr>,
              \<lparr>tab_id = 2, openerTabId = None, cookieStoreId = ''firefox-default'', incognito = False, pinned = False\<rparr>,
              \<lparr>tab_id = 3, openerTabId = None, cookieStoreId = ''firefox-default'', incognito = False, pinned = False\<rparr>],
      cache = ''<li>b</li>'', offset = Some 1, insertionPoint = None, shouldUpdate = False\<rparr>
      \<lparr>parentNode = (\<lambda>n. if n = 1 then Some 0 else if n = 10 \<or> n = 11 \<or> n = 12 then Some 1 else None),
      childNodes = (\<lambda>n. if n = 0 then [1] else if n = 1 then [10, 11, 12] else []),
      isElement = (\<lambda>n. True), nextNode = 20, nowCalls = 0, progressLog = []\<rparr>)) 1 = None"
proof -
  define env where "env = \<lparr>windowElement = (\<lambda>w. if w = 7 then Some (Some 1) else None),
      tabElement = (\<lambda>i. if i = 1 then Some (Some 10) else if i = 2 then Some (Some 11) else None),
      wholeContainer = 0,
      createContextualFragment = (\<lambda>s. [HElement [HElement [], HElement [], HElement []]]),
      clock = (\<lambda>n. int n), kPROGRESS_INTERVAL = 16\<rparr>"
  define env' where "env' = \<lparr>windowElement = (\<lambda>w. if w = 7 then Some (Some 1) else None),
      tabElement = (\<lambda>i. if i = 1 then Some (Some 10) else if i = 2 then Some (Some 11)
                         else if i = 3 then Some (Some 12) else None),
      wholeContainer = 0,
      createContextualFragment = (\<lambda>s. [HElement []]),
      clock = (\<lambda>n. int n), kPROGRESS_INTERVAL = 16\<rparr>"
  define d where "d = \<lparr>parentNode = (\<lambda>n. if n = 1 then Some 0 else if n = 10 \<or> n = 11 \<or> n = 12 then Some 1 else None),
      childNodes = (\<lambda>n. if n = 0 then [1] else if n = 1 then [10, 11, 12] else []),
      isElement = (\<lambda>n. True), nextNode = 20, nowCalls = 0, progressLog = []\<rparr>"
  define ps where "ps = \<lparr>windowId = 7,
      tabs = [\<lparr>tab_id = 1, openerTabId = None, cookieStoreId = ''firefox-default'', incognito = False, pinned = False\<rparr>,
              \<lparr>tab_id = 2, openerTabId = None, cookieStoreId = ''firefox-default'', incognito = False, pinned = False\<rparr>],
      cache = ''<ul><li>a</li><li>b</li><li>c</li></ul>'', offset = None, insertionPoint = None, shouldUpdate = False\<rparr>"
  define ps' where "ps' = \<lparr>windowId = 7,
      tabs = [\<lparr>tab_id = 1, openerTabId = None, cookieStoreId = ''firefox-default'', incognito = False, pinned = False\<rparr>,
              \<lparr>tab_id = 2, openerTabId = None, cookieStoreId = ''firefox-default'', incognito = False, pinned = False\<rparr>,
              \<lparr>tab_id = 3, openerTabId = None, cookieStoreId = ''firefox-default'', incognito = False, pinned = False\<rparr>],
      cache = ''<li>b</li>'', offset = Some 1, insertionPoint = None, shouldUpdate = False\<rparr>"
  have f: "fst (restoreDOM env ps d) = Returned (Some (20, [21, 22, 23]))"
    unfolding env_def ps_def d_def by code_simp
  then have r: "restoreDOM env ps d = (Returned (Some (20, [21, 22, 23])), snd (restoreDOM env ps d))"
    by (simp add: prod_eq_iff)
  have n: "length [21, 22, 23 :: nat] \<noteq> length (tabs_from_offset ps)"
    unfolding ps_def by code_simp
  have o: "\<not> 0 < offset_or_0 ps"
    by (simp add: offset_or_0_def ps_def)
  obtain p where
    "restoreTabsFromCacheInternal env ps d = (Returned [], removeChild p 20 (snd (restoreDOM env ps d)))"
    "parentNode (removeChild p 20 (snd (restoreDOM env ps d))) 20 = None"
    using count_mismatch_removes_container [of env ps d 20 "[21, 22, 23]" "snd (restoreDOM env ps d)"] r n o
    by blast
  then have full: "fst (restoreTabsFromCacheInternal env ps d) = Returned [] \<and>
             parentNode (snd (restoreTabsFromCacheInternal env ps d)) 20 = None"
    by simp
  have f': "fst (restoreDOM env' ps' d) = Returned (Some (1, [20]))"
    unfolding env'_def ps'_def d_def by code_simp
  then have r': "restoreDOM env' ps' d = (Returned (Some (1, [20])), snd (restoreDOM env' ps' d))"
    by (simp add: prod_eq_iff)
  have n': "length [20 :: nat] \<noteq> length (tabs_from_offset ps')"
    unfolding ps'_def by code_simp
  have o': "0 < offset_or_0 ps' \<longrightarrow> parentNode d 1 \<noteq> None \<and> 1 \<notin> set (childNodes d 1) \<and> 1 < nextNode d"
    by (simp add: d_def)
  have t: "0 < offset_or_0 ps'"
    by (simp add: offset_or_0_def ps'_def)
  obtain p' where
    "restoreTabsFromCacheInternal env' ps' d = (Returned [], removeChild p' 1 (snd (restoreDOM env' ps' d)))"
    "parentNode (removeChild p' 1 (snd (restoreDOM env' ps' d))) 1 = None"
    using count_mismatch_removes_container [of env' ps' d 1 "[20]" "snd (restoreDOM env' ps' d)"] r' n' o'
    by blast
  then have tail: "fst (restoreTabsFromCacheInternal env' ps' d) = Returned [] \<and>
             parentNode (snd (restoreTabsFromCacheInternal env' ps' d)) 1 = None"
    by simp
  show ?thesis using f full f' tail unfolding env_def env'_def d_def ps_def ps'_def by blast
qed

section \<open>Properties of the fixup pass\<close>

lemma progressValue_bounds:
  assumes "0 < c" "c \<le> m"
  shows "33 \<le> progressValue c m \<and> progressValue c m \<le> 66"
proof -
  define q :: rat where "q = of_nat c / of_nat m"
  have m: "0 < m" using assms by simp
  have q1: "q \<le> 1" using assms m by (simp add: q_def divide_le_eq)
  have q0: "0 \<le> q" by (simp add: q_def)
  have "q * 33 \<le> 1 * 33" using q1 by (intro mult_right_mono) auto
  then have hi: "q * 33 + 1 / 2 < of_int 34" by simp
  have "0 \<le> q * 33" using q0 by simp
  then have "(0::rat) \<le> q * 33 + 1 / 2" by simp
  then have lo: "0 \<le> \<lfloor>q * 33 + 1 / 2\<rfloor>" by (simp only: zero_le_floor)
  have "\<lfloor>q * 33 + 1 / 2\<rfloor> < 34" using hi by (simp only: floor_less_iff)
  then show ?thesis using lo by (simp add: progressValue_def js_round_def q_def)
qed

text \<open>
  The invariant of both loops: after \<open>k\<close> iterations the counter is at most \<open>k\<close>, and
  every value logged since the start lies between 33 and 66.
\<close>

definition progress_inv :: "int list \<Rightarrow> nat \<Rightarrow> nat \<times> int \<times> sidebar \<Rightarrow> bool" where
  "progress_inv base k s =
     (case s of (count, lastDraw, d) \<Rightarrow>
        count \<le> k \<and> (\<exists>new. progressLog d = base @ new \<and> list_all (\<lambda>v. 33 \<le> v \<and> v \<le> 66) new))"

lemma reportProgress_inv:
  assumes "progress_inv base k s" "k < maxCount"
  shows "progress_inv base (Suc k) (reportProgress env maxCount s)"
proof -
  obtain count lastDraw d where s: "s = (count, lastDraw, d)" by (cases s) auto
  from assms(1) s obtain new where
    c: "count \<le> k" and l: "progressLog d = base @ new" and a: "list_all (\<lambda>v. 33 \<le> v \<and> v \<le> 66) new"
    by (auto simp: progress_inv_def)
  have "0 < Suc count" "Suc count \<le> maxCount" using c assms(2) by auto
  then have r: "33 \<le> progressValue (Suc count) maxCount \<and> progressValue (Suc count) maxCount \<le> 66"
    by (rule progressValue_bounds)
  show ?thesis
  proof (cases "clock env (nowCalls d) - lastDraw > kPROGRESS_INTERVAL env")
    case True
    then have "reportProgress env maxCount s =
            (Suc count, clock env (Suc (nowCalls d)),
             d\<lparr>nowCalls := Suc (Suc (nowCalls d)),
               progressLog := base @ new @ [progressValue (Suc count) maxCount]\<rparr>)"
      using s l by (simp add: Let_def)
    then show ?thesis using c a r by (simp add: progress_inv_def)
  next
    case False
    then show ?thesis using s c l a by (auto simp: progress_inv_def Let_def)
  qed
qed

lemma fold_reportProgress_inv:
  "progress_inv base k s \<Longrightarrow> k + length xs \<le> maxCount \<Longrightarrow>
   progress_inv base (k + length xs) (fold (\<lambda>x. reportProgress env maxCount) xs s)"
proof (induction xs arbitrary: k s)
  case Nil
  then show ?case by simp
next
  case (Cons x xs)
  have "progress_inv base (Suc k) (reportProgress env maxCount s)"
    using Cons.prems by (intro reportProgress_inv) auto
  then have "progress_inv base (Suc k + length xs)
               (fold (\<lambda>x. reportProgress env maxCount) xs (reportProgress env maxCount s))"
    using Cons.prems by (intro Cons.IH) auto
  then show ?case by simp
qed

lemma fixup_progress_range:
  "fixupTabsRestoredFromCache env tabElements tabs' d = (r, d') \<Longrightarrow>
   \<exists>new. progressLog d' = progressLog d @ new \<and> list_all (\<lambda>v. 33 \<le> v \<and> v \<le> 66) new"
proof (cases "length tabElements = length tabs'")
  case False
  assume "fixupTabsRestoredFromCache env tabElements tabs' d = (r, d')"
  then have "d' = d" using False by (simp add: fixupTabsRestoredFromCache_def)
  then show ?thesis by simp
next
  case True
  assume h: "fixupTabsRestoredFromCache env tabElements tabs' d = (r, d')"
  let ?m = "length tabElements * 2"
  let ?s0 = "(0::nat, clock env (nowCalls d), d\<lparr>nowCalls := Suc (nowCalls d)\<rparr>)"
  let ?s1 = "fold (\<lambda>index. reportProgress env ?m) [0..<length tabElements] ?s0"
  let ?s2 = "fold (\<lambda>tabElement. reportProgress env ?m) tabElements ?s1"
  have "progress_inv (progressLog d) 0 ?s0" by (simp add: progress_inv_def)
  then have "progress_inv (progressLog d) (0 + length [0..<length tabElements]) ?s1"
    by (rule fold_reportProgress_inv) simp
  then have "progress_inv (progressLog d) (length tabElements + length tabElements) ?s2"
    by (intro fold_reportProgress_inv) auto
  moreover have "d' = snd (snd ?s2)"
    using h True by (simp add: fixupTabsRestoredFromCache_def Let_def)
  ultimately show ?thesis by (auto simp: progress_inv_def split: prod.splits)
qed

text \<open>
  C5.  A fixup pass over one element, with a clock that advances by more than the
  interval between any two readings, reports at every check: 50 in step 1 and 66 in
  step 2.  By \<open>fixup_progress_range\<close> no pass reports a value above 66: the shared
  counter over \<open>2 \<times> elementCount\<close> maps both steps onto the range from 33 to 66, and
  the progress does not approach 100 as both steps complete.
\<close>

theorem fixup_progress_ends_at_66:
  "progressLog (snd (fixupTabsRestoredFromCache
      \<lparr>windowElement = (\<lambda>w. None), tabElement = (\<lambda>i. None), wholeContainer = 0,
       createContextualFragment = (\<lambda>s. []), clock = (\<lambda>n. int n * 100), kPROGRESS_INTERVAL = 16\<rparr>
      [1]
      [\<lparr>tab_id = 1, openerTabId = None, cookieStoreId = ''firefox-default'', incognito = False,
        pinned = False\<rparr>]
      \<lparr>parentNode = (\<lambda>n. None), childNodes = (\<lambda>n. []), isElement = (\<lambda>n. True), nextNode = 2,
       nowCalls = 0, progressLog = []\<rparr>)) = [50, 66]"
  by code_simp

end
